theory Spec2Isabelle
  imports Main "HOL-Library.AList" "HOL-Library.Monad_Syntax"
begin

section \<open>Python strings\<close>

text \<open>
  A Python \<open>str\<close> is modelled as a \<open>string\<close> (a list of characters).
  \<open>s.replace(old, new)\<close> with a one-character \<open>old\<close> rewrites every occurrence of that
  character, left to right; \<open>new\<close> may be empty.
\<close>

definition replace :: "char \<Rightarrow> string \<Rightarrow> string \<Rightarrow> string" where
  "replace old new s = concat (map (\<lambda>c. if c = old then new else [c]) s)"

text \<open>
  \<open>s.split(sep)\<close> with a one-character separator: the pieces between the separators,
  empty pieces kept, always at least one piece.
\<close>

fun split :: "char \<Rightarrow> string \<Rightarrow> string list" where
  "split sep [] = [[]]"
| "split sep (c # cs) =
     (if c = sep then [] # split sep cs
      else (case split sep cs of
              [] \<Rightarrow> [[c]]
            | p # ps \<Rightarrow> (c # p) # ps))"

text \<open>
  \<open>str.isspace\<close> on the characters below code point 256, and \<open>s.strip()\<close>, which
  removes the whitespace at both ends.
\<close>

definition isspace :: "char \<Rightarrow> bool" where
  "isspace c \<longleftrightarrow>
     c \<in> set [CHR 0x09, CHR 0x0A, CHR 0x0B, CHR 0x0C, CHR 0x0D,
              CHR 0x1C, CHR 0x1D, CHR 0x1E, CHR 0x1F, CHR 0x20, CHR 0x85, CHR 0xA0]"

definition strip :: "string \<Rightarrow> string" where
  "strip s = rev (dropWhile isspace (rev (dropWhile isspace s)))"

text \<open>\<open>s.endswith(suffix)\<close>.\<close>

definition endswith :: "string \<Rightarrow> string \<Rightarrow> bool" where
  "endswith s suf \<longleftrightarrow> length suf \<le> length s \<and> drop (length s - length suf) s = suf"

section \<open>Input normalization (\<open>edi_835_parser/__init__.py\<close>)\<close>

definition preprocess_edi_content :: "string \<Rightarrow> string" where
  "preprocess_edi_content content =
     (let processed_content = content;
          processed_content = replace (CHR 0x1D) ''*'' processed_content;
          processed_content = replace (CHR 0x1E) ''~'' processed_content;
          processed_content = replace (CHR 0x0A) '''' processed_content;
          processed_content = replace (CHR 0x1F) '':'' processed_content
      in processed_content)"

section \<open>Code-lookup coercions (\<open>elements/\<close>)\<close>

text \<open>The two static tables, as association lists in the order of the source.\<close>

definition communication_qualifiers :: "(string \<times> string) list" where
  "communication_qualifiers =
     [(''TE'', ''telephone''),
      (''FX'', ''facsimile''),
      (''UR'', ''uniform resource locator (URL)''),
      (''EM'', ''electronic mail''),
      (''EX'', ''telephone extension'')]"

definition contact_function_codes :: "(string \<times> string) list" where
  "contact_function_codes =
     [(''BL'', ''billing contact''),
      (''CX'', ''correspondence contact''),
      (''IC'', ''information contact''),
      (''TE'', ''technical contact'')]"

text \<open>\<open>d.get(key, default)\<close> on a dictionary.\<close>

definition dict_get :: "('k \<times> 'v) list \<Rightarrow> 'k \<Rightarrow> 'v \<Rightarrow> 'v" where
  "dict_get d k dflt = (case map_of d k of Some v \<Rightarrow> v | None \<Rightarrow> dflt)"

definition CommunicationQualifier_parser :: "string \<Rightarrow> string" where
  "CommunicationQualifier_parser v = dict_get communication_qualifiers v v"

definition ContactFunctionCode_parser :: "string \<Rightarrow> string" where
  "ContactFunctionCode_parser v = dict_get contact_function_codes v v"

section \<open>Errors and sequences\<close>

text \<open>
  A raised exception is the left summand of the result. \<open>xs[i]\<close> on a list raises
  \<open>IndexError\<close> out of range.
\<close>

datatype error = IndexError | ValueError | AssertionError | AttributeError | KeyError

definition and_then :: "error + 'a \<Rightarrow> ('a \<Rightarrow> error + 'b) \<Rightarrow> error + 'b" where
  "and_then r f = (case r of Inl e \<Rightarrow> Inl e | Inr x \<Rightarrow> f x)"

definition getitem :: "'a list \<Rightarrow> nat \<Rightarrow> error + 'a" where
  "getitem xs i = (if i < length xs then Inr (xs ! i) else Inl IndexError)"

section \<open>Segment utilities (\<open>segments/utilities.py\<close>)\<close>

text \<open>
  Modelled from the spec: \<open>split_segment\<close> of \<open>segments/utilities.py\<close>, which is not
  among the sources. Section 4.1: each record is split on the field separator (\<open>*\<close>)
  into an ordered sequence of raw field strings, field 0 being the leading tag.
\<close>

definition split_segment :: "string \<Rightarrow> string list" where
  "split_segment segment = split (CHR ''*'') segment"

text \<open>
  Modelled from the spec: \<open>find_identifier\<close> of \<open>segments/utilities.py\<close>, the leading
  tag (field 0) of a record.
\<close>

definition find_identifier :: "string \<Rightarrow> string" where
  "find_identifier segment = hd (split_segment segment)"

text \<open>
  Modelled from the spec: \<open>get_element\<close> of \<open>segments/utilities.py\<close>. Section 4.2: a
  missing trailing field resolves to an explicit absent value (\<open>None\<close>), never an error.
\<close>

definition get_element :: "string list \<Rightarrow> nat \<Rightarrow> string option" where
  "get_element segment index = (if index < length segment then Some (segment ! index) else None)"

text \<open>
  Modelled from the spec: the \<open>Identifier\<close> element of \<open>elements/identifier.py\<close>, a
  passthrough string (section 4.2).
\<close>

definition Identifier_parser :: "string \<Rightarrow> string" where
  "Identifier_parser v = v"

section \<open>Segments (\<open>segments/trace.py\<close>, \<open>segments/contact.py\<close>)\<close>

text \<open>
  An attribute declared with an element descriptor stores the descriptor's \<open>parser\<close>
  applied to the assigned value. The code-lookup parsers are \<open>d.get(value, value)\<close>, so
  they map \<open>None\<close> to \<open>None\<close>: \<open>map_option\<close> below.
\<close>

record Trace =
  Trace_segment :: string
  Trace_identifier :: string
  trace_type :: string
  trace_number :: string
  entity_identifier :: "string option"

definition Trace_init :: "string \<Rightarrow> error + Trace" where
  "Trace_init segment0 =
     (let segment = split_segment segment0 in
      and_then (getitem segment 0) (\<lambda>s0.
      and_then (getitem segment 1) (\<lambda>s1.
      and_then (getitem segment 2) (\<lambda>s2.
      Inr \<lparr>Trace_segment = segment0,
           Trace_identifier = Identifier_parser s0,
           trace_type = s1,
           trace_number = s2,
           entity_identifier = (if length segment > 3 then Some (segment ! 3) else None)\<rparr>))))"

record Contact =
  Contact_segment :: string
  Contact_identifier :: string
  contact_function_code :: string
  Contact_name :: "string option"
  communication_number_qualifier :: "string option"
  communication_number :: "string option"
  communication_number_qualifier_2 :: "string option"
  communication_number_2 :: "string option"

definition Contact_init :: "string \<Rightarrow> error + Contact" where
  "Contact_init segment0 =
     (let segment = split_segment segment0 in
      and_then (getitem segment 0) (\<lambda>s0.
      and_then (getitem segment 1) (\<lambda>s1.
      Inr \<lparr>Contact_segment = segment0,
           Contact_identifier = Identifier_parser s0,
           contact_function_code = ContactFunctionCode_parser s1,
           Contact_name =
             (if get_element segment 2 \<noteq> Some '''' then get_element segment 2 else None),
           communication_number_qualifier =
             map_option CommunicationQualifier_parser (get_element segment 3),
           communication_number = get_element segment 4,
           communication_number_qualifier_2 =
             map_option CommunicationQualifier_parser (get_element segment 5),
           communication_number_2 = get_element segment 6\<rparr>)))"

section \<open>File selection (\<open>edi_835_parser/__init__.py\<close>)\<close>

text \<open>
  The operating system is a parameter: what \<open>os.path.expanduser\<close>, \<open>os.path.isdir\<close>
  and \<open>os.listdir\<close> return.
\<close>

record os_env =
  expanduser :: "string \<Rightarrow> string"
  isdir :: "string \<Rightarrow> bool"
  listdir :: "string \<Rightarrow> string list"

definition find_edi_835_files :: "os_env \<Rightarrow> string \<Rightarrow> string list" where
  "find_edi_835_files os path =
     filter (\<lambda>file. endswith file ''.txt'' \<or> endswith file ''.835'' \<or> endswith file ''.DAT'')
       (listdir os path)"

text \<open>
  \<open>parse_to_json\<close> up to the choice of the file. What follows the choice
  (\<open>_build_transaction_set(file_path, preprocess)\<close>, then \<open>to_json\<close>, with the same
  exception re-raised when \<open>debug\<close> is off) reads no other path; it is the parameter
  \<open>build_and_convert\<close>.
\<close>

definition parse_to_json ::
  "os_env \<Rightarrow> (string \<Rightarrow> error + 'j) \<Rightarrow> string \<Rightarrow> error + 'j" where
  "parse_to_json os build_and_convert path0 =
     and_then (getitem path0 0) (\<lambda>c.
       let path = (if c = CHR ''~'' then expanduser os path0 else path0) in
       if isdir os path then
         (let files = find_edi_835_files os path in
          if files = [] then Inl ValueError
          else and_then (getitem files 0) (\<lambda>file. build_and_convert (path @ ''/'' @ file)))
       else build_and_convert path)"

section \<open>The hierarchical view: values and references\<close>

text \<open>
  The value \<open>to_json\<close> builds is made of \<open>None\<close>, strings, lists and dictionaries. A
  dictionary keeps its keys in insertion order: \<open>d[k] = v\<close> replaces the value of a key
  that is there and adds a new key at the end (\<open>AList.update\<close>).
\<close>

datatype json = JNone | JStr string | JList "json list" | JDict "(string \<times> json) list"

text \<open>
  \<open>to_json\<close> holds references into the value it is building (\<open>current_transaction\<close>
  and the like are the very dictionaries that sit in the lists of \<open>json_data\<close>, and
  are mutated in place). Lists only grow at their end and no key is ever deleted, so an
  object is identified by the path of subscripts that leads to it from \<open>json_data\<close>. A
  result of \<open>None\<close> below is a raised exception (\<open>KeyError\<close>, \<open>IndexError\<close>, or an
  operation on a value of the wrong type).
\<close>

datatype subscript = Key string | Idx nat

type_synonym ref = "subscript list"

fun getsub :: "json \<Rightarrow> subscript \<Rightarrow> json option" where
  "getsub (JDict kvs) (Key k) = map_of kvs k"
| "getsub (JList xs) (Idx i) = (if i < length xs then Some (xs ! i) else None)"
| "getsub _ _ = None"

fun deref :: "json \<Rightarrow> ref \<Rightarrow> json option" where
  "deref j [] = Some j"
| "deref j (k # ks) = (case getsub j k of None \<Rightarrow> None | Some j' \<Rightarrow> deref j' ks)"

fun update_at :: "ref \<Rightarrow> (json \<Rightarrow> json option) \<Rightarrow> json \<Rightarrow> json option" where
  "update_at [] f j = f j"
| "update_at (Key k # ks) f (JDict kvs) =
     (case map_of kvs k of
        None \<Rightarrow> None
      | Some v \<Rightarrow> (case update_at ks f v of
                    None \<Rightarrow> None
                  | Some v' \<Rightarrow> Some (JDict (AList.update k v' kvs))))"
| "update_at (Idx i # ks) f (JList xs) =
     (if i < length xs
      then (case update_at ks f (xs ! i) of
              None \<Rightarrow> None
            | Some v' \<Rightarrow> Some (JList (xs[i := v'])))
      else None)"
| "update_at _ _ _ = None"

text \<open>\<open>r[k] = v\<close> for the dictionary at \<open>r\<close>.\<close>

definition setitem :: "json \<Rightarrow> ref \<Rightarrow> string \<Rightarrow> json \<Rightarrow> json option" where
  "setitem j r k v =
     update_at r (\<lambda>d. case d of JDict kvs \<Rightarrow> Some (JDict (AList.update k v kvs)) | _ \<Rightarrow> None) j"

text \<open>\<open>r.append(v)\<close> for the list at \<open>r\<close>.\<close>

definition append_item :: "json \<Rightarrow> ref \<Rightarrow> json \<Rightarrow> json option" where
  "append_item j r v =
     update_at r (\<lambda>l. case l of JList xs \<Rightarrow> Some (JList (xs @ [v])) | _ \<Rightarrow> None) j"

text \<open>
  \<open>r.append(v)\<close> where the code keeps a reference to \<open>v\<close>: the new heap and the
  reference to the element just appended.
\<close>

definition append_new :: "json \<Rightarrow> ref \<Rightarrow> json \<Rightarrow> (json \<times> ref) option" where
  "append_new j r v =
     (case deref j r of
        Some (JList xs) \<Rightarrow> map_option (\<lambda>j'. (j', r @ [Idx (length xs)])) (append_item j r v)
      | _ \<Rightarrow> None)"

text \<open>\<open>if k not in r: r[k] = []\<close> for the dictionary at \<open>r\<close>.\<close>

definition ensure_list :: "json \<Rightarrow> ref \<Rightarrow> string \<Rightarrow> json option" where
  "ensure_list j r k =
     update_at r
       (\<lambda>d. case d of
              JDict kvs \<Rightarrow>
                Some (if k \<in> set (map fst kvs) then d else JDict (AList.update k (JList []) kvs))
            | _ \<Rightarrow> None) j"

section \<open>The hierarchical view: record converters (\<open>transaction_set.py\<close>)\<close>

text \<open>
  Every \<open>_convert_*_segment\<close> is a dictionary literal whose \<open>n\<close> keys, in order, take
  \<open>parts[i] if len(parts) > i else ""\<close> for \<open>i\<close> from 1 to \<open>n\<close>. \<open>convert\<close> is that
  literal for a list of keys; each converter is \<open>convert\<close> at its own keys.
\<close>

definition convert :: "string list \<Rightarrow> string \<Rightarrow> json" where
  "convert names segment =
     (let parts = split_segment segment
      in JDict (map (\<lambda>(i, name). (name, JStr (if length parts > i then parts ! i else '''')))
                 (enumerate 1 names)))"

definition convert_isa_segment_keys :: "string list" where
  "convert_isa_segment_keys =
     [''authorization_information_qualifier'', ''authorization_information'',
      ''security_information_qualifier'', ''security_information'',
      ''interchange_sender_id_qualifier'', ''interchange_sender_id'',
      ''interchange_receiver_id_qualifier'', ''interchange_receiver_id'',
      ''interchange_date'', ''interchange_time'',
      ''interchange_control_standards_identifier'', ''interchange_control_version_number'',
      ''interchange_control_number'', ''acknowledgement_requested'', ''usage_indicator'',
      ''component_element_separator'']"

definition convert_isa_segment :: "string \<Rightarrow> json" where
  "convert_isa_segment = convert convert_isa_segment_keys"

definition convert_gs_segment_keys :: "string list" where
  "convert_gs_segment_keys =
     [''functional_identifier_code'', ''application_sender_code'',
      ''application_receiver_id'', ''date'', ''time'', ''group_control_number'',
      ''responsible_agency_code'', ''version_release_industry_identifier'']"

definition convert_gs_segment :: "string \<Rightarrow> json" where
  "convert_gs_segment = convert convert_gs_segment_keys"

definition convert_st_segment_keys :: "string list" where
  "convert_st_segment_keys =
     [''transaction_set_identifier_code'', ''transaction_set_control_number'']"

definition convert_st_segment :: "string \<Rightarrow> json" where
  "convert_st_segment = convert convert_st_segment_keys"

definition convert_bpr_segment_keys :: "string list" where
  "convert_bpr_segment_keys =
     [''transaction_handling_code'', ''monetary_amount'', ''credit_debit_flag'',
      ''payment_method_code'', ''payment_format_code'', ''dfi_id_number_qualifier'',
      ''dfi_identification_number'', ''account_number_qualifier'',
      ''sender_bank_account_number'', ''originating_company_identifier'',
      ''originating_company_supplemental_code'', ''dfi_identification_number_qualifier'',
      ''receiver_or_provider_bank_id_number'', ''account_number_qualifier_2'',
      ''receiver_or_provider_account_number'', ''check_issue_or_eft_effective_date'']"

definition convert_bpr_segment :: "string \<Rightarrow> json" where
  "convert_bpr_segment = convert convert_bpr_segment_keys"

definition convert_trn_segment_keys :: "string list" where
  "convert_trn_segment_keys =
     [''trace_type_code'', ''reference_identification'',
      ''originating_company_identifier'', ''originating_company_supplemental_code'']"

definition convert_trn_segment :: "string \<Rightarrow> json" where
  "convert_trn_segment = convert convert_trn_segment_keys"

definition convert_dtm_segment_keys :: "string list" where
  "convert_dtm_segment_keys =
     [''date_time_qualifier'', ''date'', ''time'', ''time_code'',
      ''date_time_period_format'', ''date_time_period'']"

definition convert_dtm_segment :: "string \<Rightarrow> json" where
  "convert_dtm_segment = convert convert_dtm_segment_keys"

definition convert_n1_segment_keys :: "string list" where
  "convert_n1_segment_keys =
     [''entity_identifier_code'', ''name'', ''identification_code_qualifier'',
      ''identification_code'']"

definition convert_n1_segment :: "string \<Rightarrow> json" where
  "convert_n1_segment = convert convert_n1_segment_keys"

definition convert_n3_segment_keys :: "string list" where
  "convert_n3_segment_keys =
     [''address_line_1'', ''address_line_2'']"

definition convert_n3_segment :: "string \<Rightarrow> json" where
  "convert_n3_segment = convert convert_n3_segment_keys"

definition convert_n4_segment_keys :: "string list" where
  "convert_n4_segment_keys =
     [''city_name'', ''state_code'', ''postal_code'', ''country_code'',
      ''location_qualifier'', ''location_identifier'']"

definition convert_n4_segment :: "string \<Rightarrow> json" where
  "convert_n4_segment = convert convert_n4_segment_keys"

definition convert_per_segment_keys :: "string list" where
  "convert_per_segment_keys =
     [''contact_function_code'', ''contact_name'', ''communication_number_qualifier_1'',
      ''communication_number_1'', ''communication_number_qualifier_2'',
      ''communication_number_2'', ''communication_number_qualifier_3'',
      ''communication_number_3'', ''contact_inquiry_reference'']"

definition convert_per_segment :: "string \<Rightarrow> json" where
  "convert_per_segment = convert convert_per_segment_keys"

definition convert_ref_segment_keys :: "string list" where
  "convert_ref_segment_keys =
     [''reference_identification_qualifier'', ''reference_identification'',
      ''description'', ''reference_identifier'']"

definition convert_ref_segment :: "string \<Rightarrow> json" where
  "convert_ref_segment = convert convert_ref_segment_keys"

definition convert_clp_segment_keys :: "string list" where
  "convert_clp_segment_keys =
     [''patient_control_number'', ''claim_status_code'', ''total_claim_charge_amount'',
      ''total_claim_payment_amount'', ''patient_responsibility_amount'',
      ''claim_filing_indicator_code'', ''payer_claim_control_number'',
      ''facility_type_code'', ''claim_frequency_code'', ''patient_status_code'',
      ''diagnosis_related_group_code'', ''drg_weight'', ''discharge_fraction'']"

definition convert_clp_segment :: "string \<Rightarrow> json" where
  "convert_clp_segment = convert convert_clp_segment_keys"

definition convert_cas_segment_keys :: "string list" where
  "convert_cas_segment_keys =
     [''claim_adjustment_group_code'', ''adjustment_reason_code'', ''adjustment_amount'',
      ''adjustment_quantity'', ''adjustment_reason_code_2'', ''adjustment_amount_2'',
      ''adjustment_quantity_2'', ''adjustment_reason_code_3'', ''adjustment_amount_3'',
      ''adjustment_quantity_3'', ''adjustment_reason_code_4'', ''adjustment_amount_4'',
      ''adjustment_quantity_4'', ''adjustment_reason_code_5'', ''adjustment_amount_5'',
      ''adjustment_quantity_5'', ''adjustment_reason_code_6'', ''adjustment_amount_6'',
      ''adjustment_quantity_6'']"

definition convert_cas_segment :: "string \<Rightarrow> json" where
  "convert_cas_segment = convert convert_cas_segment_keys"

definition convert_nm1_segment_keys :: "string list" where
  "convert_nm1_segment_keys =
     [''entity_identifier_code'', ''entity_type_qualifier'', ''last_name'', ''first_name'',
      ''middle_name'', ''name_prefix'', ''name_suffix'', ''identification_code_qualifier'',
      ''identification_code'', ''entity_relationship_code'', ''entity_identifier_code_2'',
      ''identification_code_qualifier_2'']"

definition convert_nm1_segment :: "string \<Rightarrow> json" where
  "convert_nm1_segment = convert convert_nm1_segment_keys"

definition convert_amt_segment_keys :: "string list" where
  "convert_amt_segment_keys =
     [''amount_qualifier_code'', ''monetary_amount'', ''credit_debit_flag_code'']"

definition convert_amt_segment :: "string \<Rightarrow> json" where
  "convert_amt_segment = convert convert_amt_segment_keys"

definition convert_svc_segment_keys :: "string list" where
  "convert_svc_segment_keys =
     [''service_type_code'', ''charge_amount'', ''payment_amount'', ''revenue_code'',
      ''units_of_service_paid'', ''original_units_of_service'', ''adjudicated_date'']"

definition convert_svc_segment :: "string \<Rightarrow> json" where
  "convert_svc_segment = convert convert_svc_segment_keys"

definition convert_plb_segment_keys :: "string list" where
  "convert_plb_segment_keys =
     [''provider_identifier'', ''fiscal_period_date'', ''provider_adjustment_identifier'',
      ''provider_adjustment_amount'', ''provider_adjustment_identifier_2'',
      ''provider_adjustment_amount_2'']"

definition convert_plb_segment :: "string \<Rightarrow> json" where
  "convert_plb_segment = convert convert_plb_segment_keys"

definition convert_se_segment_keys :: "string list" where
  "convert_se_segment_keys =
     [''number_of_included_segments'', ''transaction_set_control_number'']"

definition convert_se_segment :: "string \<Rightarrow> json" where
  "convert_se_segment = convert convert_se_segment_keys"

definition convert_ge_segment_keys :: "string list" where
  "convert_ge_segment_keys =
     [''number_of_transaction_sets_included'', ''group_control_number'']"

definition convert_ge_segment :: "string \<Rightarrow> json" where
  "convert_ge_segment = convert convert_ge_segment_keys"

definition convert_iea_segment_keys :: "string list" where
  "convert_iea_segment_keys =
     [''number_of_included_functional_groups'', ''interchange_control_number'']"

definition convert_iea_segment :: "string \<Rightarrow> json" where
  "convert_iea_segment = convert convert_iea_segment_keys"

section \<open>The hierarchical view: \<open>TransactionSet.to_json\<close>\<close>

text \<open>
  The tokenization at the head of \<open>to_json\<close>, from the text of the file at
  \<open>self.file_path\<close>.
\<close>

definition to_json_segments :: "string \<Rightarrow> string list" where
  "to_json_segments file_content =
     (let needs_preprocessing =
            list_ex (\<lambda>char. char \<in> set file_content) [CHR 0x1D, CHR 0x1E, CHR 0x1F];
          segments =
            (if needs_preprocessing
             then split (CHR '':'') (preprocess_edi_content file_content)
             else split (CHR ''~'') file_content)
      in map strip (filter (\<lambda>segment. strip segment \<noteq> []) segments))"

record to_json_state =
  json_data :: json
  current_transaction :: "ref option"
  current_n1_loop :: "ref option"
  current_clp_loop :: "ref option"
  current_svc_loop :: "ref option"

definition to_json_init :: to_json_state where
  "to_json_init =
     \<lparr>json_data =
        JDict [(''interchange'',
                JDict [(''ISA'', JNone), (''GS'', JNone), (''transactions'', JList []),
                       (''GE'', JNone), (''IEA'', JNone)])],
      current_transaction = None,
      current_n1_loop = None,
      current_clp_loop = None,
      current_svc_loop = None\<rparr>"

text \<open>
  The body of the loop over the segments, one \<open>if\<close>/\<open>elif\<close> branch after the other.
  The loop dictionaries are created non-empty and never lose a key, so the truth value of
  \<open>current_transaction\<close> and of the other three is whether it is not \<open>None\<close>.
\<close>

definition to_json_step :: "to_json_state \<Rightarrow> string \<Rightarrow> to_json_state option" where
  "to_json_step s segment =
     (if segment = [] then Some s
      else
        let parts = split_segment segment;
            identifier = (if parts \<noteq> [] then parts ! 0 else '''');
            j = json_data s
        in
        if identifier = ''ISA'' then
          do { j' \<leftarrow> setitem j [Key ''interchange''] ''ISA'' (convert_isa_segment segment);
               Some (s\<lparr>json_data := j'\<rparr>) }
        else if identifier = ''GS'' then
          do { j' \<leftarrow> setitem j [Key ''interchange''] ''GS'' (convert_gs_segment segment);
               Some (s\<lparr>json_data := j'\<rparr>) }
        else if identifier = ''ST'' then
          do { (j', t) \<leftarrow> append_new j [Key ''interchange'', Key ''transactions'']
                 (JDict [(''ST'', convert_st_segment segment),
                         (''BPR'', JNone),
                         (''TRN'', JNone),
                         (''DTM'', JList []),
                         (''N1_loop'', JList []),
                         (''CLP_loop'', JList []),
                         (''PLB'', JList []),
                         (''SE'', JNone)]);
               Some (s\<lparr>json_data := j', current_transaction := Some t\<rparr>) }
        else if identifier = ''BPR'' \<and> current_transaction s \<noteq> None then
          do { j' \<leftarrow> setitem j (the (current_transaction s)) ''BPR''
                 (convert_bpr_segment segment);
               Some (s\<lparr>json_data := j'\<rparr>) }
        else if identifier = ''TRN'' \<and> current_transaction s \<noteq> None then
          do { j' \<leftarrow> setitem j (the (current_transaction s)) ''TRN''
                 (convert_trn_segment segment);
               Some (s\<lparr>json_data := j'\<rparr>) }
        else if identifier = ''DTM'' \<and> current_transaction s \<noteq> None then
          (let dtm_data = convert_dtm_segment segment in
           if current_svc_loop s \<noteq> None then
             do { j1 \<leftarrow> ensure_list j (the (current_svc_loop s)) ''DTM'';
                  j' \<leftarrow> append_item j1 (the (current_svc_loop s) @ [Key ''DTM'']) dtm_data;
                  Some (s\<lparr>json_data := j'\<rparr>) }
           else
             do { j' \<leftarrow> append_item j (the (current_transaction s) @ [Key ''DTM'']) dtm_data;
                  Some (s\<lparr>json_data := j'\<rparr>) })
        else if identifier = ''N1'' \<and> current_transaction s \<noteq> None then
          do { (j', n) \<leftarrow> append_new j (the (current_transaction s) @ [Key ''N1_loop''])
                 (JDict [(''N1'', convert_n1_segment segment),
                         (''N3'', JNone),
                         (''N4'', JNone),
                         (''PER'', JNone)]);
               Some (s\<lparr>json_data := j', current_n1_loop := Some n\<rparr>) }
        else if identifier = ''N3'' \<and> current_n1_loop s \<noteq> None then
          do { j' \<leftarrow> setitem j (the (current_n1_loop s)) ''N3'' (convert_n3_segment segment);
               Some (s\<lparr>json_data := j'\<rparr>) }
        else if identifier = ''N4'' \<and> current_n1_loop s \<noteq> None then
          do { j' \<leftarrow> setitem j (the (current_n1_loop s)) ''N4'' (convert_n4_segment segment);
               Some (s\<lparr>json_data := j'\<rparr>) }
        else if identifier = ''PER'' \<and> current_n1_loop s \<noteq> None then
          do { j' \<leftarrow> setitem j (the (current_n1_loop s)) ''PER'' (convert_per_segment segment);
               Some (s\<lparr>json_data := j'\<rparr>) }
        else if identifier = ''REF'' \<and> current_transaction s \<noteq> None then
          (let ref_data = convert_ref_segment segment in
           if current_svc_loop s \<noteq> None then
             do { j1 \<leftarrow> ensure_list j (the (current_svc_loop s)) ''REF'';
                  j' \<leftarrow> append_item j1 (the (current_svc_loop s) @ [Key ''REF'']) ref_data;
                  Some (s\<lparr>json_data := j'\<rparr>) }
           else if current_clp_loop s \<noteq> None then
             do { j1 \<leftarrow> ensure_list j (the (current_clp_loop s)) ''REF'';
                  j' \<leftarrow> append_item j1 (the (current_clp_loop s) @ [Key ''REF'']) ref_data;
                  Some (s\<lparr>json_data := j'\<rparr>) }
           else Some s)
        else if identifier = ''LX'' \<and> current_transaction s \<noteq> None then
          Some s
        else if identifier = ''CLP'' \<and> current_transaction s \<noteq> None then
          do { (j', c) \<leftarrow> append_new j (the (current_transaction s) @ [Key ''CLP_loop''])
                 (JDict [(''CLP'', convert_clp_segment segment),
                         (''CAS'', JList []),
                         (''NM1'', JList []),
                         (''DTM'', JList []),
                         (''AMT'', JList []),
                         (''REF'', JList []),
                         (''SVC_loop'', JList [])]);
               Some (s\<lparr>json_data := j', current_clp_loop := Some c,
                       current_svc_loop := None\<rparr>) }
        else if identifier = ''CAS'' \<and> current_clp_loop s \<noteq> None then
          (if current_svc_loop s \<noteq> None then
             do { j1 \<leftarrow> ensure_list j (the (current_svc_loop s)) ''CAS'';
                  j' \<leftarrow> append_item j1 (the (current_svc_loop s) @ [Key ''CAS''])
                    (convert_cas_segment segment);
                  Some (s\<lparr>json_data := j'\<rparr>) }
           else
             do { j' \<leftarrow> append_item j (the (current_clp_loop s) @ [Key ''CAS''])
                    (convert_cas_segment segment);
                  Some (s\<lparr>json_data := j'\<rparr>) })
        else if identifier = ''NM1'' \<and> current_clp_loop s \<noteq> None then
          do { j' \<leftarrow> append_item j (the (current_clp_loop s) @ [Key ''NM1''])
                 (convert_nm1_segment segment);
               Some (s\<lparr>json_data := j'\<rparr>) }
        else if identifier = ''AMT'' \<and> current_clp_loop s \<noteq> None then
          (if current_svc_loop s \<noteq> None then
             do { j1 \<leftarrow> ensure_list j (the (current_svc_loop s)) ''AMT'';
                  j' \<leftarrow> append_item j1 (the (current_svc_loop s) @ [Key ''AMT''])
                    (convert_amt_segment segment);
                  Some (s\<lparr>json_data := j'\<rparr>) }
           else
             do { j' \<leftarrow> append_item j (the (current_clp_loop s) @ [Key ''AMT''])
                    (convert_amt_segment segment);
                  Some (s\<lparr>json_data := j'\<rparr>) })
        else if identifier = ''SVC'' \<and> current_clp_loop s \<noteq> None then
          do { (j', v) \<leftarrow> append_new j (the (current_clp_loop s) @ [Key ''SVC_loop''])
                 (JDict [(''SVC'', convert_svc_segment segment)]);
               Some (s\<lparr>json_data := j', current_svc_loop := Some v\<rparr>) }
        else if identifier = ''PLB'' \<and> current_transaction s \<noteq> None then
          do { j' \<leftarrow> append_item j (the (current_transaction s) @ [Key ''PLB''])
                 (convert_plb_segment segment);
               Some (s\<lparr>json_data := j'\<rparr>) }
        else if identifier = ''SE'' \<and> current_transaction s \<noteq> None then
          do { j' \<leftarrow> setitem j (the (current_transaction s)) ''SE'' (convert_se_segment segment);
               Some (s\<lparr>json_data := j', current_transaction := None, current_n1_loop := None,
                       current_clp_loop := None, current_svc_loop := None\<rparr>) }
        else if identifier = ''GE'' then
          do { j' \<leftarrow> setitem j [Key ''interchange''] ''GE'' (convert_ge_segment segment);
               Some (s\<lparr>json_data := j'\<rparr>) }
        else if identifier = ''IEA'' then
          do { j' \<leftarrow> setitem j [Key ''interchange''] ''IEA'' (convert_iea_segment segment);
               Some (s\<lparr>json_data := j'\<rparr>) }
        else Some s)"

fun to_json_loop :: "to_json_state \<Rightarrow> string list \<Rightarrow> to_json_state option" where
  "to_json_loop s [] = Some s"
| "to_json_loop s (segment # segments) =
     (case to_json_step s segment of
        None \<Rightarrow> None
      | Some s' \<Rightarrow> to_json_loop s' segments)"

definition to_json :: "string \<Rightarrow> json option" where
  "to_json file_content =
     map_option json_data (to_json_loop to_json_init (to_json_segments file_content))"

section \<open>The document (\<open>transaction_set.py\<close>)\<close>

text \<open>
  The loop and segment classes that \<open>TransactionSet\<close> reads are outside the sources.
  Each is a record of the attributes the code reads, holding the values the reads return;
  \<open>'v\<close> is the type of those values. An attribute that may be \<open>None\<close> and is tested for
  it is an \<open>option\<close>.
\<close>

record 'v DateSegment =
  date :: 'v

record 'v CodeElement =
  code :: 'v

record 'v AdjustmentSegment =
  group_code :: "'v CodeElement"
  reason_code :: "'v CodeElement"
  amount :: 'v

record 'v ReferenceSegment =
  Reference_qualifier :: "'v CodeElement"
  Reference_value :: 'v

record 'v RemarkSegment =
  Remark_qualifier :: "'v CodeElement"
  Remark_code :: "'v CodeElement"

record 'v ServiceSegment =
  Service_code :: 'v
  modifier :: 'v
  Service_qualifier :: 'v
  allowed_units :: 'v
  billed_units :: 'v
  charge_amount :: 'v
  paid_amount :: 'v

record 'v ServiceLoop =
  service :: "'v ServiceSegment"
  service_period_start :: "'v DateSegment option"
  service_period_end :: "'v DateSegment option"
  allowed_amount :: 'v
  adjustments :: "'v AdjustmentSegment list"
  references :: "'v ReferenceSegment list"
  remarks :: "'v RemarkSegment list"

record 'v ClaimStatus =
  payer_classification :: 'v
  was_forwarded :: 'v

record 'v ClaimSegment =
  marker :: 'v
  icn :: 'v
  status :: "'v ClaimStatus"

record 'v EntitySegment =
  Entity_name :: 'v

record 'v ClaimLoop =
  claim :: "'v ClaimSegment"
  patient :: "'v EntitySegment"
  rendering_provider :: "'v EntitySegment option"
  claim_statement_period_start :: "'v DateSegment option"
  claim_statement_period_end :: "'v DateSegment option"
  services :: "'v ServiceLoop list"

record 'v OrganizationSegment =
  Organization_name :: 'v
  Organization_type :: "string option"

record 'v OrganizationLoop =
  organization :: "'v OrganizationSegment"

record 'v FinancialInformationSegment =
  transaction_date :: 'v

text \<open>
  \<open>build\<close> passes \<open>None\<close> to the constructor for a scalar it has not met, so the three
  scalars are options. \<open>'i\<close> is the type of an \<open>Interchange\<close> segment.
\<close>

record ('i, 'v) TransactionSet =
  interchange :: "'i option"
  financial_information :: "'v FinancialInformationSegment option"
  trace :: "Trace option"
  claims :: "'v ClaimLoop list"
  organizations :: "'v OrganizationLoop list"
  file_path :: string

subsection \<open>The payer and payee accessors\<close>

definition payer :: "('i, 'v) TransactionSet \<Rightarrow> error + 'v OrganizationLoop" where
  "payer self =
     (let payer = filter (\<lambda>org. Organization_type (organization org) = Some ''payer'')
                    (organizations self)
      in if length payer \<noteq> 1 then Inl AssertionError else getitem payer 0)"

definition payee :: "('i, 'v) TransactionSet \<Rightarrow> error + 'v OrganizationLoop" where
  "payee self =
     (let payee = filter (\<lambda>org. Organization_type (organization org) = Some ''payee'')
                    (organizations self)
      in if length payee \<noteq> 1 then Inl AssertionError else getitem payee 0)"

subsection \<open>The flattening view\<close>

text \<open>
  A row is a dictionary from column name to value, \<open>None\<close> being Python's \<open>None\<close>.
  \<open>py_str\<close> is Python's \<open>str\<close> on the values read.
\<close>

definition serialize_service ::
  "('v \<Rightarrow> 'v) \<Rightarrow> 'v FinancialInformationSegment option \<Rightarrow> 'v OrganizationLoop
     \<Rightarrow> 'v ClaimLoop \<Rightarrow> 'v ServiceLoop \<Rightarrow> error + (string \<times> 'v option) list" where
  "serialize_service py_str financial_information0 payer0 claim0 service0 =
     (let start_date = None;
          start_date =
            (if service_period_start service0 \<noteq> None
             then Some (date (the (service_period_start service0)))
             else if claim_statement_period_start claim0 \<noteq> None
             then Some (date (the (claim_statement_period_start claim0)))
             else start_date);
          end_date = None;
          end_date =
            (if service_period_end service0 \<noteq> None
             then Some (date (the (service_period_end service0)))
             else if claim_statement_period_end claim0 \<noteq> None
             then Some (date (the (claim_statement_period_end claim0)))
             else end_date)
      in case financial_information0 of
           None \<Rightarrow> Inl AttributeError
         | Some fi \<Rightarrow>
             Inr [(''marker'', Some (marker (claim claim0))),
                  (''patient'', Some (Entity_name (patient claim0))),
                  (''code'', Some (Service_code (service service0))),
                  (''modifier'', Some (modifier (service service0))),
                  (''qualifier'', Some (Service_qualifier (service service0))),
                  (''allowed_units'', Some (allowed_units (service service0))),
                  (''billed_units'', Some (billed_units (service service0))),
                  (''transaction_date'', Some (transaction_date fi)),
                  (''icn'', Some (icn (claim claim0))),
                  (''charge_amount'', Some (charge_amount (service service0))),
                  (''allowed_amount'', Some (allowed_amount service0)),
                  (''paid_amount'', Some (paid_amount (service service0))),
                  (''payer'', Some (Organization_name (organization payer0))),
                  (''start_date'', start_date),
                  (''end_date'', end_date),
                  (''rendering_provider'',
                     if rendering_provider claim0 \<noteq> None
                     then Some (Entity_name (the (rendering_provider claim0))) else None),
                  (''payer_classification'',
                     Some (py_str (payer_classification (status (claim claim0))))),
                  (''was_forwarded'', Some (was_forwarded (status (claim claim0))))])"

text \<open>The decimal digits of an index, for the numbered column names.\<close>

fun str_nat :: "nat \<Rightarrow> string" where
  "str_nat n =
     (if n < 10 then [char_of (48 + n)] else str_nat (n div 10) @ [char_of (48 + n mod 10)])"

declare str_nat.simps [simp del]

text \<open>The first exception of a sequence of results, or all the values.\<close>

fun collect :: "(error + 'a) list \<Rightarrow> error + 'a list" where
  "collect [] = Inr []"
| "collect (r # rs) = and_then r (\<lambda>x. and_then (collect rs) (\<lambda>xs. Inr (x # xs)))"

definition to_dataframe ::
  "('v \<Rightarrow> 'v) \<Rightarrow> ('i, 'v) TransactionSet \<Rightarrow> error + (string \<times> 'v option) list list" where
  "to_dataframe py_str self =
     collect (concat (map (\<lambda>claim0. map (\<lambda>service0.
       and_then (payer self) (\<lambda>payer0.
       and_then (serialize_service py_str (financial_information self) payer0 claim0 service0)
         (\<lambda>datum.
       let datum = fold (\<lambda>(index, adjustment) datum.
                     AList.update (''adj_'' @ str_nat index @ ''_amount'')
                       (Some (amount adjustment))
                    (AList.update (''adj_'' @ str_nat index @ ''_code'')
                       (Some (code (reason_code adjustment)))
                    (AList.update (''adj_'' @ str_nat index @ ''_group'')
                       (Some (code (group_code adjustment))) datum)))
                     (enumerate 0 (adjustments service0)) datum;
           datum = fold (\<lambda>(index, reference) datum.
                     AList.update (''ref_'' @ str_nat index @ ''_value'')
                       (Some (Reference_value reference))
                    (AList.update (''ref_'' @ str_nat index @ ''_qual'')
                       (Some (code (Reference_qualifier reference))) datum))
                     (enumerate 0 (references service0)) datum;
           datum = fold (\<lambda>(index, remark) datum.
                     AList.update (''rem_'' @ str_nat index @ ''_code'')
                       (Some (code (Remark_code remark)))
                    (AList.update (''rem_'' @ str_nat index @ ''_qual'')
                       (Some (code (Remark_qualifier remark))) datum))
                     (enumerate 0 (remarks service0)) datum
       in Inr datum)))
       (services claim0)) (claims self)))"

subsection \<open>\<open>TransactionSet.build\<close>\<close>

text \<open>
  The segment constructors and loop builders outside the sources are parameters. A loop
  builder takes the initiating segment and the iterator (the segments not yet consumed)
  and returns the loop, the iterator (or \<open>None\<close>) and the pending segment (or \<open>None\<close>).
\<close>

record ('i, 'v) collaborators =
  InterchangeSegment :: "string \<Rightarrow> error + 'i"
  FinancialInformationSegment :: "string \<Rightarrow> error + 'v FinancialInformationSegment"
  OrganizationLoop_build ::
    "string \<Rightarrow> string list \<Rightarrow> error + ('v OrganizationLoop \<times> string list option \<times> string option)"
  ClaimLoop_build ::
    "string \<Rightarrow> string list \<Rightarrow> error + ('v ClaimLoop \<times> string list option \<times> string option)"

text \<open>
  Modelled from the spec: the tags by which the classes outside the sources identify
  their segment (section 6: \<open>ISA\<close>, \<open>BPR\<close>, and the loops \<open>N1_loop\<close>, \<open>CLP_loop\<close>
  named after their initiating tags). \<open>Trace.identification\<close> is in the sources.
\<close>

definition InterchangeSegment_identification :: string where
  "InterchangeSegment_identification = ''ISA''"

definition FinancialInformationSegment_identification :: string where
  "FinancialInformationSegment_identification = ''BPR''"

definition TraceSegment_identification :: string where
  "TraceSegment_identification = ''TRN''"

definition OrganizationLoop_initiating_identifier :: string where
  "OrganizationLoop_initiating_identifier = ''N1''"

definition ClaimLoop_initiating_identifier :: string where
  "ClaimLoop_initiating_identifier = ''CLP''"

datatype ('i, 'v) attribute =
    Interchange_of 'i
  | FinancialInformation_of "'v FinancialInformationSegment"
  | Trace_of Trace
  | Organization_of "'v OrganizationLoop"
  | Claim_of "'v ClaimLoop"

record ('i, 'v) BuildAttributeResponse =
  response_key :: "string option"
  response_value :: "('i, 'v) attribute option"
  response_segment :: "string option"
  response_segments :: "string list option"

definition build_attribute ::
  "('i, 'v) collaborators \<Rightarrow> string option \<Rightarrow> string list
     \<Rightarrow> error + ('i, 'v) BuildAttributeResponse" where
  "build_attribute P segment0 segments0 =
     (case (case segment0 of
              None \<Rightarrow> (case segments0 of [] \<Rightarrow> None | x # rest \<Rightarrow> Some (x, rest))
            | Some x \<Rightarrow> Some (x, segments0)) of
        None \<Rightarrow>
          Inr \<lparr>response_key = None, response_value = None,
               response_segment = None, response_segments = None\<rparr>
      | Some (segment, segments) \<Rightarrow>
          let identifier = find_identifier segment in
          if identifier = InterchangeSegment_identification then
            and_then (InterchangeSegment P segment) (\<lambda>interchange.
              Inr \<lparr>response_key = Some ''interchange'',
                   response_value = Some (Interchange_of interchange),
                   response_segment = None, response_segments = Some segments\<rparr>)
          else if identifier = FinancialInformationSegment_identification then
            and_then (FinancialInformationSegment P segment) (\<lambda>financial_information.
              Inr \<lparr>response_key = Some ''financial information'',
                   response_value = Some (FinancialInformation_of financial_information),
                   response_segment = None, response_segments = Some segments\<rparr>)
          else if identifier = TraceSegment_identification then
            and_then (Trace_init segment) (\<lambda>trace.
              Inr \<lparr>response_key = Some ''trace'',
                   response_value = Some (Trace_of trace),
                   response_segment = None, response_segments = Some segments\<rparr>)
          else if identifier = OrganizationLoop_initiating_identifier then
            and_then (OrganizationLoop_build P segment segments)
              (\<lambda>(organization, segments, segment).
              Inr \<lparr>response_key = Some ''organization'',
                   response_value = Some (Organization_of organization),
                   response_segment = segment, response_segments = segments\<rparr>)
          else if identifier = ClaimLoop_initiating_identifier then
            and_then (ClaimLoop_build P segment segments)
              (\<lambda>(claim, segments, segment).
              Inr \<lparr>response_key = Some ''claim'',
                   response_value = Some (Claim_of claim),
                   response_segment = segment, response_segments = segments\<rparr>)
          else
            Inr \<lparr>response_key = None, response_value = None,
                 response_segment = None, response_segments = Some segments\<rparr>)"

text \<open>
  The assignments after one response: the local variables of \<open>build\<close> are the fields
  of the document under construction.
\<close>

definition store :: "('i, 'v) BuildAttributeResponse \<Rightarrow> ('i, 'v) TransactionSet
    \<Rightarrow> ('i, 'v) TransactionSet" where
  "store response ts =
     (case response_value response of
        Some (Interchange_of x) \<Rightarrow>
          (if response_key response = Some ''interchange''
           then ts\<lparr>interchange := Some x\<rparr> else ts)
      | Some (FinancialInformation_of x) \<Rightarrow>
          (if response_key response = Some ''financial information''
           then ts\<lparr>financial_information := Some x\<rparr> else ts)
      | Some (Trace_of x) \<Rightarrow>
          (if response_key response = Some ''trace'' then ts\<lparr>trace := Some x\<rparr> else ts)
      | Some (Organization_of x) \<Rightarrow>
          (if response_key response = Some ''organization''
           then ts\<lparr>organizations := organizations ts @ [x]\<rparr> else ts)
      | Some (Claim_of x) \<Rightarrow>
          (if response_key response = Some ''claim''
           then ts\<lparr>claims := claims ts @ [x]\<rparr> else ts)
      | None \<Rightarrow> ts)"

text \<open>
  The \<open>while True\<close> loop. Nothing in \<open>build\<close> bounds it: a loop builder that hands
  back its own segment with an untouched iterator keeps it running, and the result is then
  \<open>None\<close>.
\<close>

partial_function (option) build_loop ::
  "('i, 'v) collaborators \<Rightarrow> ('i, 'v) TransactionSet \<Rightarrow> string option \<Rightarrow> string list
     \<Rightarrow> (error + ('i, 'v) TransactionSet) option" where
  "build_loop P ts segment segments =
     (case build_attribute P segment segments of
        Inl e \<Rightarrow> Some (Inl e)
      | Inr response \<Rightarrow>
          (case response_segments response of
             None \<Rightarrow> Some (Inr ts)
           | Some segments' \<Rightarrow>
               build_loop P (store response ts) (response_segment response) segments'))"

text \<open>The tokenization at the head of \<open>build\<close>, from the text of the file.\<close>

definition build_segments :: "string \<Rightarrow> string list" where
  "build_segments file = map strip (split (CHR ''~'') file)"

definition build ::
  "('i, 'v) collaborators \<Rightarrow> string \<Rightarrow> string \<Rightarrow> (error + ('i, 'v) TransactionSet) option" where
  "build P path file =
     build_loop P
       \<lparr>interchange = None, financial_information = None, trace = None,
        claims = [], organizations = [], file_path = path\<rparr>
       None (build_segments file)"

section \<open>The normalization as the spec words it\<close>

text \<open>
  Section 6 of the spec, in its own words: the group separator becomes the field separator
  \<open>*\<close>, the record separator the token terminator \<open>~\<close>, the unit separator the
  alternate token terminator \<open>:\<close>, and line breaks are stripped, all in one pass over
  the text. This is the equivalent document in standard delimiters; it is compared with
  \<open>preprocess_edi_content\<close> below.
\<close>

definition spec_normalize :: "string \<Rightarrow> string" where
  "spec_normalize content =
     concat (map (\<lambda>c. if c = CHR 0x1D then ''*''
                       else if c = CHR 0x1E then ''~''
                       else if c = CHR 0x1F then '':''
                       else if c = CHR 0x0A then ''''
                       else [c]) content)"

text \<open>
  The exceptions a run of \<open>build\<close> can meet in its collaborators: \<open>e\<close> is raised by
  a segment constructor or a loop builder on some input.
\<close>

definition collaborator_raises :: "('i, 'v) collaborators \<Rightarrow> error \<Rightarrow> bool" where
  "collaborator_raises P e \<longleftrightarrow>
     (\<exists>s. InterchangeSegment P s = Inl e)
     \<or> (\<exists>s. FinancialInformationSegment P s = Inl e)
     \<or> (\<exists>s. Trace_init s = Inl e)
     \<or> (\<exists>s ss. OrganizationLoop_build P s ss = Inl e)
     \<or> (\<exists>s ss. ClaimLoop_build P s ss = Inl e)"

section \<open>Properties of the normalization\<close>

lemma replace_Nil [simp]: "replace old new [] = []"
  by (simp add: replace_def)

lemma replace_Cons [simp]:
  "replace old new (c # cs) = (if c = old then new else [c]) @ replace old new cs"
  by (simp add: replace_def)

lemma replace_append [simp]:
  "replace old new (xs @ ys) = replace old new xs @ replace old new ys"
  by (simp add: replace_def)

lemma replace_absent: "old \<notin> set s \<Longrightarrow> replace old new s = s"
  by (induction s) auto

lemma set_replace_subset: "set (replace old new s) \<subseteq> (set s - {old}) \<union> set new"
  by (induction s) auto

lemma preprocess_chars:
  "set (preprocess_edi_content s)
     \<subseteq> (set s - {CHR 0x1D, CHR 0x1E, CHR 0x0A, CHR 0x1F}) \<union> {CHR ''*'', CHR ''~'', CHR '':''}"
proof -
  let ?a = "replace (CHR 0x1D) ''*'' s"
  let ?b = "replace (CHR 0x1E) ''~'' ?a"
  let ?c = "replace (CHR 0x0A) '''' ?b"
  let ?d = "replace (CHR 0x1F) '':'' ?c"
  have a: "set ?a \<subseteq> (set s - {CHR 0x1D}) \<union> {CHR ''*''}"
    using set_replace_subset [of "CHR 0x1D" "''*''" s] by simp
  have b: "set ?b \<subseteq> (set ?a - {CHR 0x1E}) \<union> {CHR ''~''}"
    using set_replace_subset [of "CHR 0x1E" "''~''" ?a] by simp
  have c: "set ?c \<subseteq> set ?b - {CHR 0x0A}"
    using set_replace_subset [of "CHR 0x0A" "''''" ?b] by simp
  have d: "set ?d \<subseteq> (set ?c - {CHR 0x1F}) \<union> {CHR '':''}"
    using set_replace_subset [of "CHR 0x1F" "'':''" ?c] by simp
  have "set ?d \<subseteq> (set s - {CHR 0x1D, CHR 0x1E, CHR 0x0A, CHR 0x1F})
                   \<union> {CHR ''*'', CHR ''~'', CHR '':''}"
  proof
    fix x assume x: "x \<in> set ?d"
    with d have x1: "x \<in> set ?c \<and> x \<noteq> CHR 0x1F \<or> x = CHR '':''" by auto
    show "x \<in> (set s - {CHR 0x1D, CHR 0x1E, CHR 0x0A, CHR 0x1F})
                   \<union> {CHR ''*'', CHR ''~'', CHR '':''}"
    proof (cases "x = CHR '':'' \<or> x = CHR ''~'' \<or> x = CHR ''*''")
      case True
      then show ?thesis by auto
    next
      case False
      with x1 have "x \<in> set ?c" "x \<noteq> CHR 0x1F" by auto
      with c have "x \<in> set ?b" "x \<noteq> CHR 0x0A" by auto
      with b False have "x \<in> set ?a" "x \<noteq> CHR 0x1E" by auto
      with a False have "x \<in> set s" "x \<noteq> CHR 0x1D" by auto
      with \<open>x \<noteq> CHR 0x1E\<close> \<open>x \<noteq> CHR 0x0A\<close> \<open>x \<noteq> CHR 0x1F\<close> show ?thesis by simp
    qed
  qed
  then show ?thesis by (simp add: preprocess_edi_content_def)
qed

lemma preprocess_free:
  "CHR 0x1D \<notin> set (preprocess_edi_content s)"
  "CHR 0x1E \<notin> set (preprocess_edi_content s)"
  "CHR 0x1F \<notin> set (preprocess_edi_content s)"
  "CHR 0x0A \<notin> set (preprocess_edi_content s)"
  using preprocess_chars [of s] by auto

lemma preprocess_fixed:
  assumes "CHR 0x1D \<notin> set s" "CHR 0x1E \<notin> set s" "CHR 0x1F \<notin> set s" "CHR 0x0A \<notin> set s"
  shows "preprocess_edi_content s = s"
  using assms by (simp add: preprocess_edi_content_def replace_absent)

text \<open>
  Claim C9. \<open>preprocess_edi_content\<close> is idempotent, and its output holds none of the four
  characters it replaces (group separator, record separator, unit separator, newline).
\<close>

theorem preprocess_edi_content_idempotent:
  "preprocess_edi_content (preprocess_edi_content s) = preprocess_edi_content s
   \<and> CHR 0x1D \<notin> set (preprocess_edi_content s)
   \<and> CHR 0x1E \<notin> set (preprocess_edi_content s)
   \<and> CHR 0x1F \<notin> set (preprocess_edi_content s)
   \<and> CHR 0x0A \<notin> set (preprocess_edi_content s)"
  using preprocess_fixed [OF preprocess_free] preprocess_free by simp

lemma preprocess_Cons:
  "preprocess_edi_content (c # cs) =
     (if c = CHR 0x1D then ''*''
      else if c = CHR 0x1E then ''~''
      else if c = CHR 0x1F then '':''
      else if c = CHR 0x0A then ''''
      else [c]) @ preprocess_edi_content cs"
  by (simp add: preprocess_edi_content_def)

lemma preprocess_refines: "preprocess_edi_content d = spec_normalize d"
proof (induction d)
  case Nil
  show ?case by (simp add: preprocess_edi_content_def spec_normalize_def)
next
  case (Cons c cs)
  have "spec_normalize (c # cs) =
     (if c = CHR 0x1D then ''*''
      else if c = CHR 0x1E then ''~''
      else if c = CHR 0x1F then '':''
      else if c = CHR 0x0A then ''''
      else [c]) @ spec_normalize cs"
    by (simp add: spec_normalize_def)
  with Cons show ?case by (simp only: preprocess_Cons)
qed

lemma needs_preprocessing_after:
  "\<not> list_ex (\<lambda>char. char \<in> set (preprocess_edi_content d)) [CHR 0x1D, CHR 0x1E, CHR 0x1F]"
  using preprocess_free [of d] by simp

lemma preprocess_then_split:
  "preprocess_edi_content d = spec_normalize d
   \<and> build_segments (preprocess_edi_content d) = map strip (split (CHR ''~'') (spec_normalize d))
   \<and> to_json_segments (preprocess_edi_content d)
       = map strip (filter (\<lambda>segment. strip segment \<noteq> []) (split (CHR ''~'') (spec_normalize d)))"
proof -
  have "to_json_segments (preprocess_edi_content d)
       = map strip (filter (\<lambda>segment. strip segment \<noteq> []) (split (CHR ''~'') (preprocess_edi_content d)))"
    using needs_preprocessing_after [of d] by (simp add: to_json_segments_def)
  then show ?thesis
    by (simp add: preprocess_refines build_segments_def)
qed

text \<open>
  Claim C4 at a document with the group separator between fields, the record separator
  after each record and a line break: its equivalent in standard delimiters is
  \<open>ISA*00~GS*HP~\<close>, with the two records \<open>ISA*00\<close> and \<open>GS*HP\<close>. The
  tokenizer of \<open>build\<close> on the preprocessed text gives these two records (and the empty
  piece after the last terminator), and so does the tokenizer of \<open>to_json\<close> on the
  preprocessed text. The tokenizer of \<open>to_json\<close> on the document itself preprocesses it
  and then splits on \<open>:\<close> alone: it gives the single record \<open>ISA*00~GS*HP~\<close>, where
  the claim has the two records of the equivalent document.
\<close>

theorem to_json_segments_record_separator:
  "preprocess_edi_content (''ISA'' @ [CHR 0x1D] @ ''00'' @ [CHR 0x1E, CHR 0x0A] @ ''GS'' @ [CHR 0x1D] @ ''HP'' @ [CHR 0x1E])
     = ''ISA*00~GS*HP~''
   \<and> build_segments (preprocess_edi_content (''ISA'' @ [CHR 0x1D] @ ''00'' @ [CHR 0x1E, CHR 0x0A] @ ''GS'' @ [CHR 0x1D] @ ''HP'' @ [CHR 0x1E]))
     = [''ISA*00'', ''GS*HP'', '''']
   \<and> to_json_segments (preprocess_edi_content (''ISA'' @ [CHR 0x1D] @ ''00'' @ [CHR 0x1E, CHR 0x0A] @ ''GS'' @ [CHR 0x1D] @ ''HP'' @ [CHR 0x1E]))
     = [''ISA*00'', ''GS*HP'']
   \<and> to_json_segments ''ISA*00~GS*HP~'' = [''ISA*00'', ''GS*HP'']
   \<and> to_json_segments (''ISA'' @ [CHR 0x1D] @ ''00'' @ [CHR 0x1E, CHR 0x0A] @ ''GS'' @ [CHR 0x1D] @ ''HP'' @ [CHR 0x1E])
     = [''ISA*00~GS*HP~'']"
  by (simp add: to_json_segments_def build_segments_def preprocess_edi_content_def strip_def
      isspace_def)

section \<open>Properties of the code lookups\<close>

lemma dict_get_hit:
  "distinct (map fst d) \<Longrightarrow> (k, v) \<in> set d \<Longrightarrow> dict_get d k dflt = v"
  by (simp add: dict_get_def)

lemma dict_get_miss: "k \<notin> fst ` set d \<Longrightarrow> dict_get d k dflt = dflt"
  using map_of_eq_None_iff [of d k] by (simp add: dict_get_def)

lemma contact_function_codes_distinct: "distinct (map fst contact_function_codes)"
  by (simp add: contact_function_codes_def)

lemma communication_qualifiers_distinct: "distinct (map fst communication_qualifiers)"
  by (simp add: communication_qualifiers_def)

text \<open>
  Claim C8. Each code lookup (contact-function codes, communication-method qualifiers)
  returns the description of a code that is in its table and the raw code itself when it
  is not; being total functions, the lookups never fail.
\<close>

theorem code_lookup_or_passthrough:
  "((k, d) \<in> set contact_function_codes \<longrightarrow> ContactFunctionCode_parser k = d)
   \<and> (v \<notin> fst ` set contact_function_codes \<longrightarrow> ContactFunctionCode_parser v = v)
   \<and> ((k', d') \<in> set communication_qualifiers \<longrightarrow> CommunicationQualifier_parser k' = d')
   \<and> (v' \<notin> fst ` set communication_qualifiers \<longrightarrow> CommunicationQualifier_parser v' = v')"
  by (simp add: ContactFunctionCode_parser_def CommunicationQualifier_parser_def
       dict_get_hit [OF contact_function_codes_distinct]
       dict_get_hit [OF communication_qualifiers_distinct] dict_get_miss)

theorem code_lookup_or_passthrough_witness:
  "ContactFunctionCode_parser ''IC'' = ''information contact''
   \<and> ContactFunctionCode_parser ''ZZ'' = ''ZZ''
   \<and> CommunicationQualifier_parser ''EM'' = ''electronic mail''
   \<and> CommunicationQualifier_parser ''TE0'' = ''TE0''"
  using code_lookup_or_passthrough
    [of "''IC''" "''information contact''" "''ZZ''" "''EM''" "''electronic mail''" "''TE0''"]
  by (simp add: contact_function_codes_def communication_qualifiers_def)

section \<open>Properties of the segment constructors\<close>

lemma getitem_in [simp]: "i < length xs \<Longrightarrow> getitem xs i = Inr (xs ! i)"
  by (simp add: getitem_def)

lemma getitem_out [simp]: "\<not> i < length xs \<Longrightarrow> getitem xs i = Inl IndexError"
  by (simp add: getitem_def)

lemma and_then_Inr [simp]: "and_then (Inr x) f = f x"
  by (simp add: and_then_def)

lemma and_then_Inl [simp]: "and_then (Inl e) f = Inl e"
  by (simp add: and_then_def)

lemma Trace_init_short:
  "length (split_segment s) < 3 \<Longrightarrow> Trace_init s = Inl IndexError"
  by (cases "length (split_segment s) < 1"; cases "length (split_segment s) < 2")
     (simp_all add: Trace_init_def Let_def)

lemma Trace_init_long:
  assumes "3 \<le> length (split_segment s)"
  shows "\<exists>t. Trace_init s = Inr t
           \<and> trace_type t = split_segment s ! 1 \<and> trace_number t = split_segment s ! 2
           \<and> entity_identifier t = (if length (split_segment s) = 3 then None else Some (split_segment s ! 3))"
proof -
  from assms have "0 < length (split_segment s)" "1 < length (split_segment s)"
    "2 < length (split_segment s)" by auto
  then show ?thesis by (simp add: Trace_init_def Let_def)
qed

lemma Contact_init_short:
  "length (split_segment s) < 2 \<Longrightarrow> Contact_init s = Inl IndexError"
  by (cases "length (split_segment s) < 1") (simp_all add: Contact_init_def Let_def)

lemma Contact_init_long:
  assumes "2 \<le> length (split_segment s)"
  shows "\<exists>c. Contact_init s = Inr c
           \<and> (length (split_segment s) \<le> 2 \<longrightarrow> Contact_name c = None)
           \<and> (length (split_segment s) \<le> 3 \<longrightarrow> communication_number_qualifier c = None)
           \<and> (length (split_segment s) \<le> 4 \<longrightarrow> communication_number c = None)
           \<and> (length (split_segment s) \<le> 5 \<longrightarrow> communication_number_qualifier_2 c = None)
           \<and> (length (split_segment s) \<le> 6 \<longrightarrow> communication_number_2 c = None)"
proof -
  from assms have "0 < length (split_segment s)" "1 < length (split_segment s)"
    by auto
  then show ?thesis by (simp add: Contact_init_def Let_def get_element_def)
qed


text \<open>
  Claim C3, as stated, fails: the required leading fields are read without a guard. A
  \<open>TRN\<close> record of two fields and a \<open>PER\<close> record of one field have fewer fields than
  their layouts, and construction raises \<open>IndexError\<close>.
\<close>

theorem segment_init_short_record_raises: "length (split_segment ''TRN*1'') < 4 \<and> Trace_init ''TRN*1'' = Inl IndexError
   \<and> length (split_segment ''PER'') < 7 \<and> Contact_init ''PER'' = Inl IndexError"
  by (simp add: split_segment_def Trace_init_def Contact_init_def)

text \<open>
  Claim C3, amended. A \<open>TRN\<close> record with at least its three leading fields builds a
  \<open>Trace\<close> whose missing fourth field is \<open>None\<close>; a \<open>PER\<close> record with at least
  its two leading fields builds a \<open>Contact\<close> whose missing trailing fields (positions 2
  to 6) are \<open>None\<close>. A record with fewer fields than that raises \<open>IndexError\<close>.
\<close>

theorem segment_init_optional_fields:
  "(3 \<le> length (split_segment s) \<longrightarrow>
      (\<exists>t. Trace_init s = Inr t
         \<and> (length (split_segment s) = 3 \<longrightarrow> entity_identifier t = None)))
   \<and> (length (split_segment s) < 3 \<longrightarrow> Trace_init s = Inl IndexError)
   \<and> (2 \<le> length (split_segment r) \<longrightarrow>
      (\<exists>c. Contact_init r = Inr c
         \<and> (length (split_segment r) \<le> 2 \<longrightarrow> Contact_name c = None)
         \<and> (length (split_segment r) \<le> 3 \<longrightarrow> communication_number_qualifier c = None)
         \<and> (length (split_segment r) \<le> 4 \<longrightarrow> communication_number c = None)
         \<and> (length (split_segment r) \<le> 5 \<longrightarrow> communication_number_qualifier_2 c = None)
         \<and> (length (split_segment r) \<le> 6 \<longrightarrow> communication_number_2 c = None)))
   \<and> (length (split_segment r) < 2 \<longrightarrow> Contact_init r = Inl IndexError)"
proof -
  have "\<exists>t. Trace_init s = Inr t
         \<and> (length (split_segment s) = 3 \<longrightarrow> entity_identifier t = None)"
    if "3 \<le> length (split_segment s)"
    using Trace_init_long [OF that] by auto
  then show ?thesis
    using Trace_init_short [of s] Contact_init_long [of r] Contact_init_short [of r]
    by blast
qed

theorem segment_init_optional_fields_witness:
  "(\<exists>t. Trace_init ''TRN*1*12345'' = Inr t \<and> entity_identifier t = None)
   \<and> (\<exists>c. Contact_init ''PER*CX'' = Inr c
         \<and> Contact_name c = None
         \<and> communication_number_qualifier c = None
         \<and> communication_number c = None
         \<and> communication_number_qualifier_2 c = None
         \<and> communication_number_2 c = None)
   \<and> Trace_init ''TRN*1'' = Inl IndexError
   \<and> Contact_init ''PER'' = Inl IndexError"
  using segment_init_optional_fields [of "''TRN*1*12345''" "''PER*CX''"]
    segment_init_optional_fields [of "''TRN*1''" "''PER''"]
  by (simp add: split_segment_def)

section \<open>Properties of the file selection\<close>

lemma filter_first:
  "(\<forall>g \<in> set pre. \<not> P g) \<Longrightarrow> P f \<Longrightarrow> filter P (pre @ f # post) = f # filter P post"
  by (induction pre) auto

text \<open>
  Claim C10. Given a directory, \<open>parse_to_json\<close> hands exactly one path to the rest of
  the pipeline: the directory joined with the first listed name that ends in \<open>.txt\<close>,
  \<open>.835\<close> or \<open>.DAT\<close>; every other entry of the listing is ignored. With no such
  name it raises \<open>ValueError\<close>.
\<close>

theorem parse_to_json_directory:
  assumes "path \<noteq> []"
    and "dir = (if hd path = CHR ''~'' then expanduser os path else path)"
    and "isdir os dir"
  shows "((\<forall>g \<in> set (listdir os dir).
             \<not> (endswith g ''.txt'' \<or> endswith g ''.835'' \<or> endswith g ''.DAT''))
          \<longrightarrow> parse_to_json os run path = Inl ValueError)
       \<and> (listdir os dir = pre @ f # post
           \<and> (\<forall>g \<in> set pre. \<not> (endswith g ''.txt'' \<or> endswith g ''.835'' \<or> endswith g ''.DAT''))
           \<and> (endswith f ''.txt'' \<or> endswith f ''.835'' \<or> endswith f ''.DAT'')
          \<longrightarrow> parse_to_json os run path = run (dir @ ''/'' @ f))"
proof -
  let ?P = "\<lambda>g. endswith g ''.txt'' \<or> endswith g ''.835'' \<or> endswith g ''.DAT''"
  from assms(1) have p0: "getitem path 0 = Inr (hd path)"
    by (cases path) simp_all
  have sel: "parse_to_json os run path =
      (if filter ?P (listdir os dir) = [] then Inl ValueError
       else and_then (getitem (filter ?P (listdir os dir)) 0) (\<lambda>file. run (dir @ ''/'' @ file)))"
    using assms(2,3) by (simp add: parse_to_json_def p0 Let_def find_edi_835_files_def)
  have none: "parse_to_json os run path = Inl ValueError"
    if "\<forall>g \<in> set (listdir os dir). \<not> ?P g"
  proof -
    from that have "filter ?P (listdir os dir) = []" by (simp add: filter_empty_conv)
    with sel show ?thesis by simp
  qed
  have first: "parse_to_json os run path = run (dir @ ''/'' @ f)"
    if "listdir os dir = pre @ f # post" "\<forall>g \<in> set pre. \<not> ?P g" "?P f"
  proof -
    from that have "filter ?P (listdir os dir) = f # filter ?P post"
      using filter_first [of pre ?P f post] by simp
    with sel show ?thesis by simp
  qed
  from none first show ?thesis by blast
qed

theorem parse_to_json_directory_witness:
  "parse_to_json \<lparr>expanduser = (\<lambda>p. p), isdir = (\<lambda>p. p = ''in''), listdir = (\<lambda>p. [''a.csv'', ''b.835'', ''c.txt''])\<rparr>
      (\<lambda>p. Inr p) ''in'' = (Inr ''in/b.835'' :: error + string)
   \<and> parse_to_json \<lparr>expanduser = (\<lambda>p. p), isdir = (\<lambda>p. p = ''in''), listdir = (\<lambda>p. [''a.csv'', ''b.dat''])\<rparr>
      (\<lambda>p. Inr p) ''in'' = (Inl ValueError :: error + string)"
  using parse_to_json_directory [where path = "''in''" and dir = "''in''"
      and os = "\<lparr>expanduser = (\<lambda>p. p), isdir = (\<lambda>p. p = ''in''), listdir = (\<lambda>p. [''a.csv'', ''b.835'', ''c.txt''])\<rparr>"
      and run = "\<lambda>p. Inr p :: error + string" and pre = "[''a.csv'']" and f = "''b.835''" and post = "[''c.txt'']"]
    parse_to_json_directory [where path = "''in''" and dir = "''in''"
      and os = "\<lparr>expanduser = (\<lambda>p. p), isdir = (\<lambda>p. p = ''in''), listdir = (\<lambda>p. [''a.csv'', ''b.dat''])\<rparr>"
      and run = "\<lambda>p. Inr p :: error + string"]
  by (simp add: endswith_def)

section \<open>Properties of \<open>build\<close> and of the accessors\<close>

lemmas ident_defs = InterchangeSegment_identification_def
  FinancialInformationSegment_identification_def TraceSegment_identification_def
  OrganizationLoop_initiating_identifier_def ClaimLoop_initiating_identifier_def

lemma build_loop_end: "build_loop P ts None [] = Some (Inr ts)"
  by (subst build_loop.simps) (simp add: build_attribute_def)

lemma build_loop_scalar_step:
  assumes "find_identifier s \<noteq> ''N1''" "find_identifier s \<noteq> ''CLP''"
    and "find_identifier s = ''ISA'' \<longrightarrow> (\<exists>x. InterchangeSegment P s = Inr x)"
    and "find_identifier s = ''BPR'' \<longrightarrow> (\<exists>x. FinancialInformationSegment P s = Inr x)"
    and "find_identifier s = ''TRN'' \<longrightarrow> (\<exists>x. Trace_init s = Inr x)"
  shows "\<exists>ts'. build_loop P ts None (s # rest) = build_loop P ts' None rest
           \<and> (interchange ts' = None \<longleftrightarrow> interchange ts = None \<and> find_identifier s \<noteq> ''ISA'')
           \<and> (financial_information ts' = None \<longleftrightarrow>
                financial_information ts = None \<and> find_identifier s \<noteq> ''BPR'')
           \<and> claims ts' = claims ts \<and> organizations ts' = organizations ts
           \<and> file_path ts' = file_path ts"
proof -
  consider (isa) "find_identifier s = ''ISA''" | (bpr) "find_identifier s = ''BPR''"
    | (trn) "find_identifier s = ''TRN''"
    | (other) "find_identifier s \<noteq> ''ISA''" "find_identifier s \<noteq> ''BPR''"
        "find_identifier s \<noteq> ''TRN''"
    by blast
  then show ?thesis
  proof cases
    case isa
    with assms(3) obtain x where x: "InterchangeSegment P s = Inr x" by blast
    have "build_loop P ts None (s # rest) = build_loop P (ts\<lparr>interchange := Some x\<rparr>) None rest"
      by (subst build_loop.simps)
         (simp add: build_attribute_def ident_defs isa x store_def)
    with isa show ?thesis
      by (intro exI [of _ "ts\<lparr>interchange := Some x\<rparr>"]) simp
  next
    case bpr
    with assms(4) obtain x where x: "FinancialInformationSegment P s = Inr x" by blast
    have "build_loop P ts None (s # rest) =
            build_loop P (ts\<lparr>financial_information := Some x\<rparr>) None rest"
      by (subst build_loop.simps)
         (simp add: build_attribute_def ident_defs bpr x store_def)
    with bpr show ?thesis
      by (intro exI [of _ "ts\<lparr>financial_information := Some x\<rparr>"]) simp
  next
    case trn
    with assms(5) obtain x where x: "Trace_init s = Inr x" by blast
    have "build_loop P ts None (s # rest) = build_loop P (ts\<lparr>trace := Some x\<rparr>) None rest"
      by (subst build_loop.simps)
         (simp add: build_attribute_def ident_defs trn x store_def)
    with trn show ?thesis
      by (intro exI [of _ "ts\<lparr>trace := Some x\<rparr>"]) simp
  next
    case other
    with assms(1,2) have "build_loop P ts None (s # rest) = build_loop P ts None rest"
      by (subst build_loop.simps)
         (simp add: build_attribute_def ident_defs store_def)
    with other show ?thesis
      by (intro exI [of _ ts]) simp
  qed
qed

lemma build_loop_scalars:
  assumes "\<forall>s \<in> set segs. find_identifier s \<noteq> ''N1'' \<and> find_identifier s \<noteq> ''CLP''"
    and "\<forall>s \<in> set segs. find_identifier s = ''ISA'' \<longrightarrow> (\<exists>x. InterchangeSegment P s = Inr x)"
    and "\<forall>s \<in> set segs. find_identifier s = ''BPR'' \<longrightarrow>
           (\<exists>x. FinancialInformationSegment P s = Inr x)"
    and "\<forall>s \<in> set segs. find_identifier s = ''TRN'' \<longrightarrow> (\<exists>x. Trace_init s = Inr x)"
  shows "\<exists>ts'. build_loop P ts None segs = Some (Inr ts')
           \<and> (interchange ts' = None \<longleftrightarrow>
                interchange ts = None \<and> (\<forall>s \<in> set segs. find_identifier s \<noteq> ''ISA''))
           \<and> (financial_information ts' = None \<longleftrightarrow>
                financial_information ts = None \<and> (\<forall>s \<in> set segs. find_identifier s \<noteq> ''BPR''))
           \<and> claims ts' = claims ts \<and> organizations ts' = organizations ts
           \<and> file_path ts' = file_path ts"
  using assms
proof (induction segs arbitrary: ts)
  case Nil
  show ?case by (simp add: build_loop_end)
next
  case (Cons s rest)
  from Cons.prems have here:
    "find_identifier s \<noteq> ''N1''" "find_identifier s \<noteq> ''CLP''"
    "find_identifier s = ''ISA'' \<longrightarrow> (\<exists>x. InterchangeSegment P s = Inr x)"
    "find_identifier s = ''BPR'' \<longrightarrow> (\<exists>x. FinancialInformationSegment P s = Inr x)"
    "find_identifier s = ''TRN'' \<longrightarrow> (\<exists>x. Trace_init s = Inr x)"
    by simp_all
  from Cons.prems have later:
    "\<forall>s \<in> set rest. find_identifier s \<noteq> ''N1'' \<and> find_identifier s \<noteq> ''CLP''"
    "\<forall>s \<in> set rest. find_identifier s = ''ISA'' \<longrightarrow> (\<exists>x. InterchangeSegment P s = Inr x)"
    "\<forall>s \<in> set rest. find_identifier s = ''BPR'' \<longrightarrow>
           (\<exists>x. FinancialInformationSegment P s = Inr x)"
    "\<forall>s \<in> set rest. find_identifier s = ''TRN'' \<longrightarrow> (\<exists>x. Trace_init s = Inr x)"
    by simp_all
  from build_loop_scalar_step [OF here, of ts rest] obtain ts1 where
    ts1: "build_loop P ts None (s # rest) = build_loop P ts1 None rest
      \<and> (interchange ts1 = None \<longleftrightarrow> interchange ts = None \<and> find_identifier s \<noteq> ''ISA'')
      \<and> (financial_information ts1 = None \<longleftrightarrow>
                financial_information ts = None \<and> find_identifier s \<noteq> ''BPR'')
      \<and> claims ts1 = claims ts \<and> organizations ts1 = organizations ts
      \<and> file_path ts1 = file_path ts" ..
  from Cons.IH [OF later, of ts1] obtain ts' where
    ts': "build_loop P ts1 None rest = Some (Inr ts')
      \<and> (interchange ts' = None \<longleftrightarrow>
           interchange ts1 = None \<and> (\<forall>s \<in> set rest. find_identifier s \<noteq> ''ISA''))
      \<and> (financial_information ts' = None \<longleftrightarrow>
           financial_information ts1 = None \<and> (\<forall>s \<in> set rest. find_identifier s \<noteq> ''BPR''))
      \<and> claims ts' = claims ts1 \<and> organizations ts' = organizations ts1
      \<and> file_path ts' = file_path ts1" ..
  show ?case
  proof (intro exI [of _ ts'] conjI)
    show "build_loop P ts None (s # rest) = Some (Inr ts')" using ts1 ts' by simp
    show "interchange ts' = None \<longleftrightarrow>
       interchange ts = None \<and> (\<forall>s \<in> set (s # rest). find_identifier s \<noteq> ''ISA'')"
      using ts1 ts' by simp
    show "financial_information ts' = None \<longleftrightarrow>
       financial_information ts = None \<and> (\<forall>s \<in> set (s # rest). find_identifier s \<noteq> ''BPR'')"
      using ts1 ts' by simp
    show "claims ts' = claims ts" using ts1 ts' by simp
    show "organizations ts' = organizations ts" using ts1 ts' by simp
    show "file_path ts' = file_path ts" using ts1 ts' by simp
  qed
qed

text \<open>
  Claim C2, amended. \<open>build\<close> validates nothing. On every input without an \<open>N1\<close> or
  \<open>CLP\<close> record, on whose \<open>ISA\<close>, \<open>BPR\<close> and \<open>TRN\<close> records the segment
  constructors succeed, it returns a document, whatever the first record is; the
  document's \<open>interchange\<close> (\<open>financial_information\<close>) is \<open>None\<close> exactly when the
  input has no \<open>ISA\<close> (\<open>BPR\<close>) record.
\<close>

theorem build_does_not_validate:
  assumes "\<forall>s \<in> set (build_segments file).
             find_identifier s \<noteq> ''N1'' \<and> find_identifier s \<noteq> ''CLP''"
    and "\<forall>s \<in> set (build_segments file).
           find_identifier s = ''ISA'' \<longrightarrow> (\<exists>x. InterchangeSegment P s = Inr x)"
    and "\<forall>s \<in> set (build_segments file).
           find_identifier s = ''BPR'' \<longrightarrow> (\<exists>x. FinancialInformationSegment P s = Inr x)"
    and "\<forall>s \<in> set (build_segments file).
           find_identifier s = ''TRN'' \<longrightarrow> (\<exists>x. Trace_init s = Inr x)"
  shows "\<exists>ts. build P path file = Some (Inr ts)
           \<and> (interchange ts = None \<longleftrightarrow>
                (\<forall>s \<in> set (build_segments file). find_identifier s \<noteq> ''ISA''))
           \<and> (financial_information ts = None \<longleftrightarrow>
                (\<forall>s \<in> set (build_segments file). find_identifier s \<noteq> ''BPR''))"
proof -
  let ?ts0 = "\<lparr>interchange = None, financial_information = None, trace = None,
          claims = [], organizations = [], file_path = path\<rparr> :: ('a, 'b) TransactionSet"
  from build_loop_scalars [OF assms, of ?ts0] obtain ts where
    ts: "build_loop P ?ts0 None (build_segments file) = Some (Inr ts)
      \<and> (interchange ts = None \<longleftrightarrow>
           interchange ?ts0 = None \<and> (\<forall>s \<in> set (build_segments file). find_identifier s \<noteq> ''ISA''))
      \<and> (financial_information ts = None \<longleftrightarrow>
           financial_information ?ts0 = None
           \<and> (\<forall>s \<in> set (build_segments file). find_identifier s \<noteq> ''BPR''))
      \<and> claims ts = claims ?ts0 \<and> organizations ts = organizations ?ts0
      \<and> file_path ts = file_path ?ts0" ..
  show ?thesis
  proof (intro exI [of _ ts] conjI)
    show "build P path file = Some (Inr ts)" using ts by (simp add: build_def)
    show "interchange ts = None \<longleftrightarrow>
                (\<forall>s \<in> set (build_segments file). find_identifier s \<noteq> ''ISA'')"
      using ts by simp
    show "financial_information ts = None \<longleftrightarrow>
                (\<forall>s \<in> set (build_segments file). find_identifier s \<noteq> ''BPR'')"
      using ts by simp
  qed
qed

lemma build_loop_skip:
  "find_identifier s \<noteq> ''ISA'' \<Longrightarrow> find_identifier s \<noteq> ''BPR'' \<Longrightarrow>
   find_identifier s \<noteq> ''TRN'' \<Longrightarrow> find_identifier s \<noteq> ''N1'' \<Longrightarrow>
   find_identifier s \<noteq> ''CLP'' \<Longrightarrow>
   build_loop P ts None (s # rest) = build_loop P ts None rest"
  by (subst build_loop.simps) (simp add: build_attribute_def ident_defs store_def)

text \<open>
  Claim C2, as stated, fails. The first record of this input is \<open>ST\<close>, not \<open>ISA\<close>,
  and it has neither an \<open>ISA\<close> nor a \<open>BPR\<close> record; \<open>build\<close> returns a document
  whose scalars are \<open>None\<close>.
\<close>

theorem build_returns_without_required_scalars:
  "build \<lparr>InterchangeSegment = (\<lambda>s. Inr s),
         FinancialInformationSegment = (\<lambda>s. Inl ValueError),
         OrganizationLoop_build = (\<lambda>s ss. Inl ValueError),
         ClaimLoop_build = (\<lambda>s ss. Inl ValueError)\<rparr> ''f.835'' ''ST*835*0001~SE*1*0001~''
   = Some (Inr (\<lparr>interchange = None, financial_information = None, trace = None,
          claims = [], organizations = [], file_path = ''f.835''\<rparr> :: (string, unit) TransactionSet))"
proof -
  have segs: "build_segments ''ST*835*0001~SE*1*0001~'' = [''ST*835*0001'', ''SE*1*0001'', '''']"
    by (simp add: build_segments_def strip_def isspace_def)
  have ids: "find_identifier ''ST*835*0001'' = ''ST''" "find_identifier ''SE*1*0001'' = ''SE''"
    "find_identifier '''' = ''''"
    by (simp_all add: find_identifier_def split_segment_def)
  show ?thesis
    by (simp add: build_def segs build_loop_skip ids build_loop_end)
qed

theorem build_does_not_validate_witness:
  "\<exists>ts. build \<lparr>InterchangeSegment = (\<lambda>s. Inr s),
         FinancialInformationSegment = (\<lambda>s. Inl ValueError),
         OrganizationLoop_build = (\<lambda>s ss. Inl ValueError),
         ClaimLoop_build = (\<lambda>s ss. Inl ValueError)\<rparr> ''f.835'' ''ST*835*0001~ISA*00~''
         = Some (Inr (ts :: (string, unit) TransactionSet))
       \<and> interchange ts \<noteq> None \<and> financial_information ts = None"
proof -
  have segs: "build_segments ''ST*835*0001~ISA*00~'' = [''ST*835*0001'', ''ISA*00'', '''']"
    by (simp add: build_segments_def strip_def isspace_def)
  have ids: "find_identifier ''ST*835*0001'' = ''ST''" "find_identifier ''ISA*00'' = ''ISA''"
    "find_identifier '''' = ''''"
    by (simp_all add: find_identifier_def split_segment_def)
  show ?thesis
    using build_does_not_validate [of "''ST*835*0001~ISA*00~''"
      "\<lparr>InterchangeSegment = (\<lambda>s. Inr s),
         FinancialInformationSegment = (\<lambda>s. Inl ValueError),
         OrganizationLoop_build = (\<lambda>s ss. Inl ValueError),
         ClaimLoop_build = (\<lambda>s ss. Inl ValueError)\<rparr> :: (string, unit) collaborators" "''f.835''"]
    by (simp add: segs ids)
qed

lemma and_then_eq_Inl:
  "and_then r f = Inl e \<longleftrightarrow> r = Inl e \<or> (\<exists>x. r = Inr x \<and> f x = Inl e)"
  by (cases r) simp_all

lemma build_attribute_error:
  "build_attribute P seg segs = Inl e \<Longrightarrow> collaborator_raises P e"
  unfolding build_attribute_def collaborator_raises_def Let_def
  by (auto split: option.splits list.splits if_splits prod.splits simp: and_then_eq_Inl)

lemma build_loop_error:
  assumes ret: "build_loop P ts seg segs = Some r"
  shows "\<forall>e. r = Inl e \<longrightarrow> collaborator_raises P e"
proof -
  have "\<forall>e. r = Inl e \<longrightarrow> collaborator_raises (fst (fst (fst (((P, ts), seg), segs)))) e"
  proof (rule build_loop.raw_induct
      [where Pa = "\<lambda>x r. \<forall>e. r = Inl e \<longrightarrow> collaborator_raises (fst (fst (fst x))) e",
        OF _ ret])
    fix f :: "('a, 'b) collaborators \<Rightarrow> ('a, 'b) TransactionSet \<Rightarrow> string option \<Rightarrow> string list
                \<Rightarrow> (error + ('a, 'b) TransactionSet) option"
    fix P ts seg segs r
    assume IH: "\<And>P ts seg segs r. f P ts seg segs = Some r \<Longrightarrow>
        \<forall>e. r = Inl e \<longrightarrow> collaborator_raises (fst (fst (fst (((P, ts), seg), segs)))) e"
      and eq: "(case build_attribute P seg segs of
                 Inl e \<Rightarrow> Some (Inl e)
               | Inr response \<Rightarrow>
                   (case response_segments response of
                      None \<Rightarrow> Some (Inr ts)
                    | Some segments' \<Rightarrow>
                        f P (store response ts) (response_segment response) segments')) = Some r"
    show "\<forall>e. r = Inl e \<longrightarrow> collaborator_raises (fst (fst (fst (((P, ts), seg), segs)))) e"
    proof (cases "build_attribute P seg segs")
      case (Inl e')
      with eq have "r = Inl e'" by simp
      with Inl show ?thesis by (auto dest: build_attribute_error)
    next
      case (Inr response)
      show ?thesis
      proof (cases "response_segments response")
        case None
        with Inr eq show ?thesis by auto
      next
        case (Some segments')
        with Inr eq have "f P (store response ts) (response_segment response) segments' = Some r"
          by simp
        from IH [OF this] show ?thesis by simp
      qed
    qed
  qed
  then show ?thesis by simp
qed

lemma payer_Inr:
  "payer ts = Inr org \<longleftrightarrow>
     filter (\<lambda>x. Organization_type (organization x) = Some ''payer'') (organizations ts) = [org]"
proof -
  let ?xs = "filter (\<lambda>x. Organization_type (organization x) = Some ''payer'') (organizations ts)"
  show ?thesis
  proof (cases "length ?xs = 1")
    case True
    then obtain x where x: "?xs = [x]" by (cases ?xs) auto
    then show ?thesis by (simp add: payer_def Let_def getitem_def)
  next
    case False
    then have "?xs \<noteq> [org]" by auto
    with False show ?thesis by (simp add: payer_def Let_def)
  qed
qed

lemma payer_Inl:
  "payer ts = Inl e \<longleftrightarrow>
     e = AssertionError \<and>
     length (filter (\<lambda>x. Organization_type (organization x) = Some ''payer'') (organizations ts)) \<noteq> 1"
  by (auto simp add: payer_def Let_def getitem_def)

lemma payee_Inr:
  "payee ts = Inr org \<longleftrightarrow>
     filter (\<lambda>x. Organization_type (organization x) = Some ''payee'') (organizations ts) = [org]"
proof -
  let ?xs = "filter (\<lambda>x. Organization_type (organization x) = Some ''payee'') (organizations ts)"
  show ?thesis
  proof (cases "length ?xs = 1")
    case True
    then obtain x where x: "?xs = [x]" by (cases ?xs) auto
    then show ?thesis by (simp add: payee_def Let_def getitem_def)
  next
    case False
    then have "?xs \<noteq> [org]" by auto
    with False show ?thesis by (simp add: payee_def Let_def)
  qed
qed

lemma payee_Inl:
  "payee ts = Inl e \<longleftrightarrow>
     e = AssertionError \<and>
     length (filter (\<lambda>x. Organization_type (organization x) = Some ''payee'') (organizations ts)) \<noteq> 1"
  by (auto simp add: payee_def Let_def getitem_def)

lemma build_no_organization:
  assumes "\<forall>s \<in> set (build_segments content).
      find_identifier s \<noteq> ''ISA'' \<and> find_identifier s \<noteq> ''BPR'' \<and> find_identifier s \<noteq> ''TRN''
      \<and> find_identifier s \<noteq> ''N1'' \<and> find_identifier s \<noteq> ''CLP''"
  shows "\<exists>ts. build P path content = Some (Inr ts) \<and> organizations ts = []"
proof -
  let ?ts0 = "\<lparr>interchange = None, financial_information = None, trace = None,
          claims = [], organizations = [], file_path = path\<rparr> :: ('a, 'b) TransactionSet"
  have "\<exists>ts'. build_loop P ?ts0 None (build_segments content) = Some (Inr ts')
           \<and> (interchange ts' = None \<longleftrightarrow>
                interchange ?ts0 = None
                \<and> (\<forall>s \<in> set (build_segments content). find_identifier s \<noteq> ''ISA''))
           \<and> (financial_information ts' = None \<longleftrightarrow>
                financial_information ?ts0 = None
                \<and> (\<forall>s \<in> set (build_segments content). find_identifier s \<noteq> ''BPR''))
           \<and> claims ts' = claims ?ts0 \<and> organizations ts' = organizations ?ts0
           \<and> file_path ts' = file_path ?ts0"
    using assms by (intro build_loop_scalars) simp_all
  then obtain ts where
    ts: "build_loop P ?ts0 None (build_segments content) = Some (Inr ts)
           \<and> (interchange ts = None \<longleftrightarrow>
                interchange ?ts0 = None
                \<and> (\<forall>s \<in> set (build_segments content). find_identifier s \<noteq> ''ISA''))
           \<and> (financial_information ts = None \<longleftrightarrow>
                financial_information ?ts0 = None
                \<and> (\<forall>s \<in> set (build_segments content). find_identifier s \<noteq> ''BPR''))
           \<and> claims ts = claims ?ts0 \<and> organizations ts = organizations ?ts0
           \<and> file_path ts = file_path ?ts0" ..
  show ?thesis
  proof (intro exI [of _ ts] conjI)
    show "build P path content = Some (Inr ts)" using ts by (simp add: build_def)
    show "organizations ts = []" using ts by simp
  qed
qed

text \<open>
  Claim C5. The payer (payee) accessor returns an organization exactly when that
  organization is the only one of type \<open>payer\<close> (\<open>payee\<close>), and raises
  \<open>AssertionError\<close> exactly when the number of such organizations is not one. \<open>build\<close>
  never raises that error itself: an exception of \<open>build\<close> is one raised by a segment
  constructor or a loop builder, and an input with no organization at all is built into a
  document on which both accessors then raise.
\<close>

theorem payer_payee_accessors:
  "(payer ts = Inr org \<longleftrightarrow>
      filter (\<lambda>x. Organization_type (organization x) = Some ''payer'') (organizations ts) = [org])
   \<and> (payer ts = Inl e \<longleftrightarrow>
      e = AssertionError \<and>
      length (filter (\<lambda>x. Organization_type (organization x) = Some ''payer'')
                (organizations ts)) \<noteq> 1)
   \<and> (payee ts = Inr org' \<longleftrightarrow>
      filter (\<lambda>x. Organization_type (organization x) = Some ''payee'') (organizations ts) = [org'])
   \<and> (payee ts = Inl e' \<longleftrightarrow>
      e' = AssertionError \<and>
      length (filter (\<lambda>x. Organization_type (organization x) = Some ''payee'')
                (organizations ts)) \<noteq> 1)
   \<and> (build P path content = Some (Inl e'') \<longrightarrow> collaborator_raises P e'')
   \<and> ((\<forall>s \<in> set (build_segments content).
          find_identifier s \<noteq> ''ISA'' \<and> find_identifier s \<noteq> ''BPR''
          \<and> find_identifier s \<noteq> ''TRN'' \<and> find_identifier s \<noteq> ''N1''
          \<and> find_identifier s \<noteq> ''CLP'') \<longrightarrow>
       (\<exists>built. build P path content = Some (Inr built)
          \<and> payer built = Inl AssertionError \<and> payee built = Inl AssertionError))"
proof -
  have raised: "collaborator_raises P e''" if "build P path content = Some (Inl e'')"
    using build_loop_error [OF that [unfolded build_def]] by simp
  have built: "\<exists>built. build P path content = Some (Inr built)
          \<and> payer built = Inl AssertionError \<and> payee built = Inl AssertionError"
    if "\<forall>s \<in> set (build_segments content).
          find_identifier s \<noteq> ''ISA'' \<and> find_identifier s \<noteq> ''BPR''
          \<and> find_identifier s \<noteq> ''TRN'' \<and> find_identifier s \<noteq> ''N1''
          \<and> find_identifier s \<noteq> ''CLP''"
  proof -
    from build_no_organization [OF that, of P path] obtain b where
      b: "build P path content = Some (Inr b) \<and> organizations b = []" ..
    then have "payer b = Inl AssertionError" "payee b = Inl AssertionError"
      by (simp_all add: payer_Inl payee_Inl)
    with b show ?thesis by (intro exI [of _ b]) simp
  qed
  show ?thesis
    using payer_Inr [of ts org] payer_Inl [of ts e] payee_Inr [of ts org'] payee_Inl [of ts e']
      raised built
    by (intro conjI impI) assumption+
qed

theorem payer_payee_accessors_witness:
  "payer (\<lparr>interchange = None, financial_information = None, trace = None, claims = [],
          organizations =
            [\<lparr>organization = \<lparr>Organization_name = ''A'', Organization_type = Some ''payer''\<rparr>\<rparr>,
             \<lparr>organization = \<lparr>Organization_name = ''B'', Organization_type = Some ''payee''\<rparr>\<rparr>,
             \<lparr>organization = \<lparr>Organization_name = ''C'', Organization_type = Some ''payer''\<rparr>\<rparr>],
          file_path = ''f.835''\<rparr> :: (unit, string) TransactionSet)
     = Inl AssertionError
   \<and> payee (\<lparr>interchange = None, financial_information = None, trace = None, claims = [],
          organizations =
            [\<lparr>organization = \<lparr>Organization_name = ''A'', Organization_type = Some ''payer''\<rparr>\<rparr>,
             \<lparr>organization = \<lparr>Organization_name = ''B'', Organization_type = Some ''payee''\<rparr>\<rparr>,
             \<lparr>organization = \<lparr>Organization_name = ''C'', Organization_type = Some ''payer''\<rparr>\<rparr>],
          file_path = ''f.835''\<rparr> :: (unit, string) TransactionSet)
     = Inr \<lparr>organization = \<lparr>Organization_name = ''B'', Organization_type = Some ''payee''\<rparr>\<rparr>
   \<and> collaborator_raises
        (\<lparr>InterchangeSegment = (\<lambda>s. Inl ValueError),
          FinancialInformationSegment = (\<lambda>s. Inl ValueError),
          OrganizationLoop_build = (\<lambda>s ss. Inl ValueError),
          ClaimLoop_build = (\<lambda>s ss. Inl ValueError)\<rparr> :: (unit, string) collaborators) ValueError
   \<and> (\<exists>built.
         build (\<lparr>InterchangeSegment = (\<lambda>s. Inl ValueError),
                 FinancialInformationSegment = (\<lambda>s. Inl ValueError),
                 OrganizationLoop_build = (\<lambda>s ss. Inl ValueError),
                 ClaimLoop_build = (\<lambda>s ss. Inl ValueError)\<rparr> :: (unit, string) collaborators)
           ''f.835'' ''ST*835*0001~'' = Some (Inr built)
         \<and> payer built = Inl AssertionError \<and> payee built = Inl AssertionError)"
proof -
  let ?P = "\<lparr>InterchangeSegment = (\<lambda>s. Inl ValueError),
          FinancialInformationSegment = (\<lambda>s. Inl ValueError),
          OrganizationLoop_build = (\<lambda>s ss. Inl ValueError),
          ClaimLoop_build = (\<lambda>s ss. Inl ValueError)\<rparr> :: (unit, string) collaborators"
  let ?ts = "\<lparr>interchange = None, financial_information = None, trace = None, claims = [],
          organizations =
            [\<lparr>organization = \<lparr>Organization_name = ''A'', Organization_type = Some ''payer''\<rparr>\<rparr>,
             \<lparr>organization = \<lparr>Organization_name = ''B'', Organization_type = Some ''payee''\<rparr>\<rparr>,
             \<lparr>organization = \<lparr>Organization_name = ''C'', Organization_type = Some ''payer''\<rparr>\<rparr>],
          file_path = ''f.835''\<rparr> :: (unit, string) TransactionSet"
  have segs: "build_segments ''ISA*00~'' = [''ISA*00'', '''']"
    "build_segments ''ST*835*0001~'' = [''ST*835*0001'', '''']"
    by (simp_all add: build_segments_def strip_def isspace_def)
  have ids: "find_identifier ''ST*835*0001'' = ''ST''" "find_identifier ''ISA*00'' = ''ISA''"
    "find_identifier '''' = ''''"
    by (simp_all add: find_identifier_def split_segment_def)
  have fails: "build ?P ''f.835'' ''ISA*00~'' = Some (Inl ValueError)"
    unfolding build_def segs
    by (subst build_loop.simps) (simp add: build_attribute_def ids ident_defs)
  let ?A = "\<lparr>organization = \<lparr>Organization_name = ''A'', Organization_type = Some ''payer''\<rparr>\<rparr>"
  let ?B = "\<lparr>organization = \<lparr>Organization_name = ''B'', Organization_type = Some ''payee''\<rparr>\<rparr>"
  note t1 = payer_payee_accessors [where ts = ?ts and org = ?A and e = AssertionError
        and org' = ?B and e' = AssertionError
        and P = ?P and path = "''f.835''" and content = "''ISA*00~''" and e'' = ValueError]
  note t2 = payer_payee_accessors [where ts = ?ts and org = ?A and e = AssertionError
        and org' = ?B and e' = AssertionError
        and P = ?P and path = "''f.835''" and content = "''ST*835*0001~''" and e'' = ValueError]
  from t1 have a: "payer ?ts = Inl AssertionError" by simp
  from t1 have b: "payee ?ts = Inr ?B" by simp
  from t1 fails have c: "collaborator_raises ?P ValueError" by simp
  from t2 have d: "\<exists>built. build ?P ''f.835'' ''ST*835*0001~'' = Some (Inr built)
         \<and> payer built = Inl AssertionError \<and> payee built = Inl AssertionError"
    by (simp add: segs ids)
  from a b c d show ?thesis by (intro conjI) assumption+
qed

section \<open>Properties of the flattening view\<close>

lemma collect_map:
  assumes "collect (map f xs) = Inr ys"
    and "\<And>x y. x \<in> set xs \<Longrightarrow> f x = Inr y \<Longrightarrow> g y = h x"
  shows "map g ys = map h xs"
  using assms
proof (induction xs arbitrary: ys)
  case Nil
  then show ?case by simp
next
  case (Cons x xs)
  from Cons.prems(1) obtain y ys' where y: "f x = Inr y" and ys': "collect (map f xs) = Inr ys'"
    and ys: "ys = y # ys'"
    by (cases "f x"; cases "collect (map f xs)") auto
  from Cons.IH [OF ys'] Cons.prems(2) have "map g ys' = map h xs" by simp
  moreover from Cons.prems(2) [of x y] y have "g y = h x" by simp
  ultimately show ?case using ys by simp
qed

lemma collect_all_Inr:
  "(\<And>x. x \<in> set xs \<Longrightarrow> \<exists>y. f x = Inr y) \<Longrightarrow> \<exists>ys. collect (map f xs) = Inr ys"
proof (induction xs)
  case Nil
  show ?case by simp
next
  case (Cons x xs)
  from Cons.prems [of x] obtain y where y: "f x = Inr y" by auto
  from Cons.IH Cons.prems obtain ys where "collect (map f xs) = Inr ys" by auto
  with y show ?case by simp
qed

lemma map_of_update_other: "k \<noteq> k' \<Longrightarrow> map_of (AList.update k v d) k' = map_of d k'"
  by (simp add: update_conv')

lemma fold_adjustments_dates:
  assumes "k' = ''start_date'' \<or> k' = ''end_date''"
  shows "map_of (fold (\<lambda>(index, adjustment) datum.
                     AList.update (''adj_'' @ str_nat index @ ''_amount'') (a adjustment)
                    (AList.update (''adj_'' @ str_nat index @ ''_code'') (b adjustment)
                    (AList.update (''adj_'' @ str_nat index @ ''_group'') (c adjustment) datum)))
                     (enumerate n xs) d) k' = map_of d k'"
  using assms by (induction xs arbitrary: n d) (auto simp add: map_of_update_other)

lemma fold_references_dates:
  assumes "k' = ''start_date'' \<or> k' = ''end_date''"
  shows "map_of (fold (\<lambda>(index, reference) datum.
                     AList.update (''ref_'' @ str_nat index @ ''_value'') (a reference)
                    (AList.update (''ref_'' @ str_nat index @ ''_qual'') (b reference) datum))
                     (enumerate n xs) d) k' = map_of d k'"
  using assms by (induction xs arbitrary: n d) (auto simp add: map_of_update_other)

lemma fold_remarks_dates:
  assumes "k' = ''start_date'' \<or> k' = ''end_date''"
  shows "map_of (fold (\<lambda>(index, remark) datum.
                     AList.update (''rem_'' @ str_nat index @ ''_code'') (a remark)
                    (AList.update (''rem_'' @ str_nat index @ ''_qual'') (b remark) datum))
                     (enumerate n xs) d) k' = map_of d k'"
  using assms by (induction xs arbitrary: n d) (auto simp add: map_of_update_other)

lemma serialize_service_dates:
  assumes "serialize_service py_str fi p c s = Inr d"
  shows "map_of d ''start_date'' =
           Some (case service_period_start s of
                   Some x \<Rightarrow> Some (date x)
                 | None \<Rightarrow> (case claim_statement_period_start c of
                              Some x \<Rightarrow> Some (date x)
                            | None \<Rightarrow> None))"
    and "map_of d ''end_date'' =
           Some (case service_period_end s of
                   Some x \<Rightarrow> Some (date x)
                 | None \<Rightarrow> (case claim_statement_period_end c of
                              Some x \<Rightarrow> Some (date x)
                            | None \<Rightarrow> None))"
  using assms
  by (auto simp add: serialize_service_def Let_def split: option.splits)

lemma concat_map_pairs:
  "concat (map (\<lambda>c. map (f c) (g c)) cs)
     = map (\<lambda>(c, s). f c s) (concat (map (\<lambda>c. map (Pair c) (g c)) cs))"
  by (induction cs) simp_all

lemma and_then_eq_Inr:
  "and_then r f = Inr y \<longleftrightarrow> (\<exists>x. r = Inr x \<and> f x = Inr y)"
  by (cases r) simp_all

text \<open>
  Claim C7. In every row the flattening emits, in the order of the (claim, service) pairs,
  \<open>start_date\<close> is the service's start date when the service has one, otherwise the
  claim's start date when the claim has one, otherwise \<open>None\<close>; \<open>end_date\<close> likewise.
  The flattening returns its rows whenever the payer accessor succeeds and the financial
  information is present.
\<close>

theorem effective_service_dates:
  fixes self :: "('i, 'v) TransactionSet"
  shows "(to_dataframe py_str self = Inr rows \<longrightarrow>
      map (\<lambda>row. (map_of row ''start_date'', map_of row ''end_date'')) rows =
      concat (map (\<lambda>c. map (\<lambda>s.
        (Some (case service_period_start s of
                 Some x \<Rightarrow> Some (date x)
               | None \<Rightarrow> (case claim_statement_period_start c of
                            Some x \<Rightarrow> Some (date x)
                          | None \<Rightarrow> None)),
         Some (case service_period_end s of
                 Some x \<Rightarrow> Some (date x)
               | None \<Rightarrow> (case claim_statement_period_end c of
                            Some x \<Rightarrow> Some (date x)
                          | None \<Rightarrow> None))))
        (services c)) (claims self)))
   \<and> ((\<exists>p. payer self = Inr p) \<and> financial_information self \<noteq> None \<longrightarrow>
        (\<exists>rows. to_dataframe py_str self = Inr rows))"
proof -
  define row where "row = (\<lambda>claim0 service0.
       and_then (payer self) (\<lambda>payer0.
       and_then (serialize_service py_str (financial_information self) payer0 claim0 service0)
         (\<lambda>datum.
       let datum = fold (\<lambda>(index, adjustment) datum.
                     AList.update (''adj_'' @ str_nat index @ ''_amount'')
                       (Some (amount adjustment))
                    (AList.update (''adj_'' @ str_nat index @ ''_code'')
                       (Some (code (reason_code adjustment)))
                    (AList.update (''adj_'' @ str_nat index @ ''_group'')
                       (Some (code (group_code adjustment))) datum)))
                     (enumerate 0 (adjustments service0)) datum;
           datum = fold (\<lambda>(index, reference) datum.
                     AList.update (''ref_'' @ str_nat index @ ''_value'')
                       (Some (Reference_value reference))
                    (AList.update (''ref_'' @ str_nat index @ ''_qual'')
                       (Some (code (Reference_qualifier reference))) datum))
                     (enumerate 0 (references service0)) datum;
           datum = fold (\<lambda>(index, remark) datum.
                     AList.update (''rem_'' @ str_nat index @ ''_code'')
                       (Some (code (Remark_code remark)))
                    (AList.update (''rem_'' @ str_nat index @ ''_qual'')
                       (Some (code (Remark_qualifier remark))) datum))
                     (enumerate 0 (remarks service0)) datum
       in Inr datum)))"
  define eff where "eff = (\<lambda>(c :: 'v ClaimLoop) (s :: 'v ServiceLoop).
        (Some (case service_period_start s of
                 Some x \<Rightarrow> Some (date x)
               | None \<Rightarrow> (case claim_statement_period_start c of
                            Some x \<Rightarrow> Some (date x)
                          | None \<Rightarrow> None)),
         Some (case service_period_end s of
                 Some x \<Rightarrow> Some (date x)
               | None \<Rightarrow> (case claim_statement_period_end c of
                            Some x \<Rightarrow> Some (date x)
                          | None \<Rightarrow> None))))"
  define pairs where "pairs = concat (map (\<lambda>c. map (Pair c) (services c)) (claims self))"
  have df: "to_dataframe py_str self = collect (map (\<lambda>(c, s). row c s) pairs)"
    unfolding to_dataframe_def row_def pairs_def by (rule arg_cong [OF concat_map_pairs])
  have row_dates: "(map_of y ''start_date'', map_of y ''end_date'') = eff c s"
    if "row c s = Inr y" for c s y
  proof -
    from that obtain p d where d: "serialize_service py_str (financial_information self) p c s = Inr d"
      and y: "y = fold (\<lambda>(index, remark) datum.
                     AList.update (''rem_'' @ str_nat index @ ''_code'')
                       (Some (code (Remark_code remark)))
                    (AList.update (''rem_'' @ str_nat index @ ''_qual'')
                       (Some (code (Remark_qualifier remark))) datum))
                     (enumerate 0 (remarks s))
                (fold (\<lambda>(index, reference) datum.
                     AList.update (''ref_'' @ str_nat index @ ''_value'')
                       (Some (Reference_value reference))
                    (AList.update (''ref_'' @ str_nat index @ ''_qual'')
                       (Some (code (Reference_qualifier reference))) datum))
                     (enumerate 0 (references s))
                (fold (\<lambda>(index, adjustment) datum.
                     AList.update (''adj_'' @ str_nat index @ ''_amount'')
                       (Some (amount adjustment))
                    (AList.update (''adj_'' @ str_nat index @ ''_code'')
                       (Some (code (reason_code adjustment)))
                    (AList.update (''adj_'' @ str_nat index @ ''_group'')
                       (Some (code (group_code adjustment))) datum)))
                     (enumerate 0 (adjustments s)) d))"
      unfolding row_def by (auto simp add: and_then_eq_Inr Let_def)
    have "map_of y ''start_date'' = map_of d ''start_date''"
      unfolding y
      by (simp only: fold_remarks_dates fold_references_dates fold_adjustments_dates simp_thms)
    moreover have "map_of y ''end_date'' = map_of d ''end_date''"
      unfolding y
      by (simp only: fold_remarks_dates fold_references_dates fold_adjustments_dates simp_thms)
    ultimately show ?thesis
      using serialize_service_dates [OF d] by (simp add: eff_def)
  qed
  have part1: "map (\<lambda>row. (map_of row ''start_date'', map_of row ''end_date'')) rows =
      concat (map (\<lambda>c. map (\<lambda>s. eff c s) (services c)) (claims self))"
    if "to_dataframe py_str self = Inr rows"
  proof -
    from that have "collect (map (\<lambda>(c, s). row c s) pairs) = Inr rows" by (simp add: df)
    then have "map (\<lambda>row. (map_of row ''start_date'', map_of row ''end_date'')) rows
        = map (\<lambda>(c, s). eff c s) pairs"
      by (rule collect_map) (auto dest: row_dates)
    then show ?thesis by (simp add: pairs_def concat_map_pairs [symmetric])
  qed
  have part2: "\<exists>rows. to_dataframe py_str self = Inr rows"
    if "\<exists>p. payer self = Inr p" "financial_information self \<noteq> None"
  proof -
    from that obtain p fi where p: "payer self = Inr p" and fi: "financial_information self = Some fi"
      by auto
    have "\<exists>y. (\<lambda>(c, s). row c s) x = Inr y" for x
      by (cases x) (simp add: row_def p fi serialize_service_def Let_def)
    then have "\<exists>ys. collect (map (\<lambda>(c, s). row c s) pairs) = Inr ys"
      by (intro collect_all_Inr)
    then show ?thesis by (simp add: df)
  qed
  from part1 part2 show ?thesis unfolding eff_def by blast
qed

theorem effective_service_dates_witness:
  "to_dataframe (\<lambda>v. v)
     (\<lparr>interchange = None,
       financial_information = Some \<lparr>transaction_date = ''20200105''\<rparr>,
       trace = None,
       claims =
         [\<lparr>claim = \<lparr>marker = ''m'', icn = ''i'',
                     status = \<lparr>payer_classification = ''primary'', was_forwarded = ''no''\<rparr>\<rparr>,
           patient = \<lparr>Entity_name = ''pat''\<rparr>,
           rendering_provider = None,
           claim_statement_period_start = Some \<lparr>date = ''20200101''\<rparr>,
           claim_statement_period_end = None,
           services =
             [\<lparr>service = \<lparr>Service_code = ''99213'', modifier = '''', Service_qualifier = ''HC'',
                           allowed_units = ''1'', billed_units = ''1'', charge_amount = ''100'',
                           paid_amount = ''80''\<rparr>,
               service_period_start = None,
               service_period_end = Some \<lparr>date = ''20200103''\<rparr>,
               allowed_amount = ''80'',
               adjustments = [], references = [], remarks = []\<rparr>]\<rparr>],
       organizations =
         [\<lparr>organization = \<lparr>Organization_name = ''A'', Organization_type = Some ''payer''\<rparr>\<rparr>],
       file_path = ''f.835''\<rparr> :: (unit, string) TransactionSet)
   = Inr [[(''marker'', Some ''m''), (''patient'', Some ''pat''), (''code'', Some ''99213''),
           (''modifier'', Some ''''), (''qualifier'', Some ''HC''), (''allowed_units'', Some ''1''),
           (''billed_units'', Some ''1''), (''transaction_date'', Some ''20200105''),
           (''icn'', Some ''i''), (''charge_amount'', Some ''100''), (''allowed_amount'', Some ''80''),
           (''paid_amount'', Some ''80''), (''payer'', Some ''A''),
           (''start_date'', Some ''20200101''), (''end_date'', Some ''20200103''),
           (''rendering_provider'', None), (''payer_classification'', Some ''primary''),
           (''was_forwarded'', Some ''no'')]]"
proof -
  let ?ts = "\<lparr>interchange = None,
       financial_information = Some \<lparr>transaction_date = ''20200105''\<rparr>,
       trace = None,
       claims =
         [\<lparr>claim = \<lparr>marker = ''m'', icn = ''i'',
                     status = \<lparr>payer_classification = ''primary'', was_forwarded = ''no''\<rparr>\<rparr>,
           patient = \<lparr>Entity_name = ''pat''\<rparr>,
           rendering_provider = None,
           claim_statement_period_start = Some \<lparr>date = ''20200101''\<rparr>,
           claim_statement_period_end = None,
           services =
             [\<lparr>service = \<lparr>Service_code = ''99213'', modifier = '''', Service_qualifier = ''HC'',
                           allowed_units = ''1'', billed_units = ''1'', charge_amount = ''100'',
                           paid_amount = ''80''\<rparr>,
               service_period_start = None,
               service_period_end = Some \<lparr>date = ''20200103''\<rparr>,
               allowed_amount = ''80'',
               adjustments = [], references = [], remarks = []\<rparr>]\<rparr>],
       organizations =
         [\<lparr>organization = \<lparr>Organization_name = ''A'', Organization_type = Some ''payer''\<rparr>\<rparr>],
       file_path = ''f.835''\<rparr> :: (unit, string) TransactionSet"
  have p: "payer ?ts = Inr \<lparr>organization = \<lparr>Organization_name = ''A'', Organization_type = Some ''payer''\<rparr>\<rparr>"
    by (simp add: payer_def getitem_def)
  from effective_service_dates [of "\<lambda>v. v" ?ts] p
  obtain rows where rows: "to_dataframe (\<lambda>v. v) ?ts = Inr rows" by auto
  with effective_service_dates [of "\<lambda>v. v" ?ts rows]
  have "map (\<lambda>row. (map_of row ''start_date'', map_of row ''end_date'')) rows
      = [(Some (Some ''20200101''), Some (Some ''20200103''))]"
    by simp
  moreover have "to_dataframe (\<lambda>v. v) ?ts = Inr [[(''marker'', Some ''m''), (''patient'', Some ''pat''), (''code'', Some ''99213''),
           (''modifier'', Some ''''), (''qualifier'', Some ''HC''), (''allowed_units'', Some ''1''),
           (''billed_units'', Some ''1''), (''transaction_date'', Some ''20200105''),
           (''icn'', Some ''i''), (''charge_amount'', Some ''100''), (''allowed_amount'', Some ''80''),
           (''paid_amount'', Some ''80''), (''payer'', Some ''A''),
           (''start_date'', Some ''20200101''), (''end_date'', Some ''20200103''),
           (''rendering_provider'', None), (''payer_classification'', Some ''primary''),
           (''was_forwarded'', Some ''no'')]]"
    by (simp add: to_dataframe_def p serialize_service_def)
  ultimately show ?thesis using rows by simp
qed

end
